theory Spec2Isabelle
  imports Main
begin

section \<open>JavaScript values of the bootstrap layer\<close>

text \<open>
  The bootstrap layer of ArchiveNET lives in \<^verbatim>\<open>src/config/arweave.ts\<close>,
  \<^verbatim>\<open>src/config/redis.ts\<close> and \<^verbatim>\<open>src/utils/helper.ts\<close>. Every function there is
  \<^verbatim>\<open>async\<close> and works on the process environment, the file system, the clock, the
  console and the network. The embedding threads one record, the world, through each
  function: a settled promise is a value of \<open>js_error + 'a\<close> (\<open>Inl\<close> is a rejection,
  i.e. a \<^verbatim>\<open>throw\<close>), paired with the world after the call.
\<close>

datatype js_error = Error (message: string)

text \<open>
  \<^verbatim>\<open>process.env.X\<close> is a string or \<^verbatim>\<open>undefined\<close>. In a condition JavaScript takes
  \<^verbatim>\<open>undefined\<close> and the empty string as false.
\<close>

definition truthy :: "string option \<Rightarrow> bool" where
  "truthy v = (case v of None \<Rightarrow> False | Some s \<Rightarrow> s \<noteq> [])"

text \<open>A number inside a template literal: its decimal digits.\<close>

definition digit :: "nat \<Rightarrow> char" where
  "digit d = char_of (of_char (CHR ''0'') + d)"

fun toString :: "nat \<Rightarrow> string" where
  "toString n = (if n < 10 then [digit n] else toString (n div 10) @ [digit (n mod 10)])"

declare toString.simps [simp del]

text \<open>\<^verbatim>\<open>String.prototype.includes\<close>: the second string occurs inside the first.\<close>

fun startsWith :: "string \<Rightarrow> string \<Rightarrow> bool" where
  "startsWith s [] = True"
| "startsWith [] (c # cs) = False"
| "startsWith (d # ds) (c # cs) = (if d = c then startsWith ds cs else False)"

fun str_includes :: "string \<Rightarrow> string \<Rightarrow> bool" where
  "str_includes [] sub = (sub = [])"
| "str_includes (d # ds) sub = (if startsWith (d # ds) sub then True else str_includes ds sub)"

text \<open>
  \<^verbatim>\<open>String.prototype.trim\<close> strips the WhiteSpace and LineTerminator code points of
  ECMAScript from both ends. A string is the sequence of its UTF-8 bytes here, so each of
  these code points is the list of its bytes: U+0009 to U+000D, U+0020, U+00A0, U+1680,
  U+2000 to U+200A, U+2028, U+2029, U+202F, U+205F, U+3000 and U+FEFF.
\<close>

definition whiteSpace :: "string list" where
  "whiteSpace =
     [[CHR 0x09], [CHR 0x0A], [CHR 0x0B], [CHR 0x0C], [CHR 0x0D], [CHR 0x20],
      [CHR 0xC2, CHR 0xA0], [CHR 0xE1, CHR 0x9A, CHR 0x80],
      [CHR 0xE2, CHR 0x80, CHR 0x80], [CHR 0xE2, CHR 0x80, CHR 0x81],
      [CHR 0xE2, CHR 0x80, CHR 0x82], [CHR 0xE2, CHR 0x80, CHR 0x83],
      [CHR 0xE2, CHR 0x80, CHR 0x84], [CHR 0xE2, CHR 0x80, CHR 0x85],
      [CHR 0xE2, CHR 0x80, CHR 0x86], [CHR 0xE2, CHR 0x80, CHR 0x87],
      [CHR 0xE2, CHR 0x80, CHR 0x88], [CHR 0xE2, CHR 0x80, CHR 0x89],
      [CHR 0xE2, CHR 0x80, CHR 0x8A], [CHR 0xE2, CHR 0x80, CHR 0xA8],
      [CHR 0xE2, CHR 0x80, CHR 0xA9], [CHR 0xE2, CHR 0x80, CHR 0xAF],
      [CHR 0xE2, CHR 0x81, CHR 0x9F], [CHR 0xE3, CHR 0x80, CHR 0x80],
      [CHR 0xEF, CHR 0xBB, CHR 0xBF]]"

function stripStart :: "string list \<Rightarrow> string \<Rightarrow> string" where
  "stripStart ts s =
     (case find (startsWith s) ts of
        None \<Rightarrow> s
      | Some t \<Rightarrow> if t = [] then s else stripStart ts (drop (length t) s))"
  by pat_completeness auto
termination
proof (relation "measure (\<lambda>(ts, s). length s)")
  show "wf (measure (\<lambda>(ts, s). length s))" by simp
next
  fix ts :: "string list" and s t :: string
  assume "find (startsWith s) ts = Some t" and "t \<noteq> []"
  then have "startsWith s t" by (auto simp: find_Some_iff)
  with \<open>t \<noteq> []\<close> have "s \<noteq> []" by (cases s; cases t) simp_all
  with \<open>t \<noteq> []\<close> show "((ts, drop (length t) s), (ts, s)) \<in> measure (\<lambda>(ts, s). length s)"
    by (cases t) simp_all
qed

declare stripStart.simps [simp del]

definition trim :: "string \<Rightarrow> string" where
  "trim s = rev (stripStart (map rev whiteSpace) (rev (stripStart whiteSpace s)))"

text \<open>The three pictographs of the log messages, as their UTF-8 bytes.\<close>

definition cross_mark :: string where
  "cross_mark = [CHR 0xE2, CHR 0x9D, CHR 0x8C]"

definition warning_sign :: string where
  "warning_sign = [CHR 0xE2, CHR 0x9A, CHR 0xA0, CHR 0xEF, CHR 0xB8, CHR 0x8F]"

definition check_mark :: string where
  "check_mark = [CHR 0xE2, CHR 0x9C, CHR 0x85]"

section \<open>The world\<close>

record process_env =
  NODE_ENV :: "string option"
  REDIS_URL :: "string option"
  SERVICE_WALLET_ADDRESS :: "string option"
  ARWEAVE_WALLET_PATH :: "string option"

text \<open>
  What a function does to the outside is recorded in a trace, oldest effect first:
  the console lines (\<^verbatim>\<open>console.log\<close>, \<^verbatim>\<open>console.warn\<close>, \<^verbatim>\<open>console.error\<close>, the last
  constructor for a call that also passes the caught error), and the I/O on Redis, HTTP,
  the file system and the key generator.
\<close>

datatype level = LOG | WARN | ERROR

datatype effect =
    Console level string
  | ConsoleWith level string js_error
  | RedisNew nat string
  | RedisPing nat
  | RedisDisconnect nat
  | Fetch string
  | ReadFile string
  | WriteFile string string
  | WalletsGenerate

text \<open>
  How the outside answers. A ping settles after some milliseconds, with a reply or with
  an error; while it is awaited, the connection may emit \<^verbatim>\<open>ready\<close> and \<^verbatim>\<open>error\<close>
  events. An HTTP request settles after some milliseconds with a response (of which
  only \<^verbatim>\<open>response.ok\<close> is read) or is rejected.
\<close>

datatype ping_outcome = PingResolves nat | PingRejects nat js_error

datatype redis_event = Ready | ErrorEvent js_error

datatype fetch_outcome = Responds nat bool | Rejects nat js_error

text \<open>The snapshot of \<^verbatim>\<open>checkRedisConnectivity\<close> and the module variable that caches it.\<close>

record health_result =
  configured :: bool
  connected :: bool
  status :: string
  details :: "string option"

record cache_entry =
  result :: health_result
  timestamp :: int

text \<open>
  The world: the state the program owns (\<open>healthCheckCache\<close>, the open Redis handles,
  the \<^verbatim>\<open>hasLoggedDisconnection\<close> flag in the closure of each long-lived connection's
  listeners), the state it shares (\<open>env\<close>, \<open>files\<close>, the clock \<open>now\<close> of
  \<^verbatim>\<open>Date.now()\<close> in milliseconds, the trace), and the answers of the outside to the
  next call (whether \<^verbatim>\<open>new Redis\<close> throws, how the ping and the HTTP request settle, what
  the key generator yields, whether \<^verbatim>\<open>writeFile\<close> is rejected). \<open>'w\<close> is the type of a
  keypair (\<^verbatim>\<open>JWKInterface\<close>).
\<close>

record 'w world =
  env :: process_env
  files :: "string \<Rightarrow> string option"
  now :: int
  trace :: "effect list"
  connections :: "nat list"
  handles :: nat
  listeners :: "nat \<Rightarrow> bool option"
  healthCheckCache :: "cache_entry option"
  redis_new :: "js_error option"
  redis_ping :: ping_outcome
  redis_events :: "redis_event list"
  fetch_info :: fetch_outcome
  generated :: "js_error + 'w"
  write_error :: "js_error option"

definition emit :: "effect \<Rightarrow> 'w world \<Rightarrow> 'w world" where
  "emit e w = w\<lparr>trace := trace w @ [e]\<rparr>"

definition console :: "level \<Rightarrow> string \<Rightarrow> 'w world \<Rightarrow> 'w world" where
  "console l s w = emit (Console l s) w"

definition consoleWith :: "level \<Rightarrow> string \<Rightarrow> js_error \<Rightarrow> 'w world \<Rightarrow> 'w world" where
  "consoleWith l s e w = emit (ConsoleWith l s e) w"

definition elapse :: "nat \<Rightarrow> 'w world \<Rightarrow> 'w world" where
  "elapse t w = w\<lparr>now := now w + int t\<rparr>"

section \<open>The Redis client (ioredis), as far as the code uses it\<close>

text \<open>
  \<^verbatim>\<open>new Redis(url, ...)\<close> throws or returns a fresh handle, which is open from then on.
\<close>

definition newRedis :: "string \<Rightarrow> 'w world \<Rightarrow> (js_error + nat) \<times> 'w world" where
  "newRedis url w =
     (case redis_new w of
        Some e \<Rightarrow> (Inl e, w)
      | None \<Rightarrow>
          (Inr (handles w),
           emit (RedisNew (handles w) url)
             (w\<lparr>handles := Suc (handles w), connections := connections w @ [handles w]\<rparr>)))"

definition disconnect :: "nat \<Rightarrow> 'w world \<Rightarrow> 'w world" where
  "disconnect h w = emit (RedisDisconnect h) (w\<lparr>connections := removeAll h (connections w)\<rparr>)"

text \<open>
  The two listeners that \<^verbatim>\<open>initializeRedis\<close> registers (redis.ts lines 36-47, the same in
  helper.ts lines 105-116). They share the closure variable \<^verbatim>\<open>hasLoggedDisconnection\<close>,
  kept here in \<open>listeners\<close> under the connection's handle.
\<close>

definition onReady :: "nat \<Rightarrow> 'w world \<Rightarrow> 'w world" where
  "onReady h w =
     (let w1 = console LOG (check_mark @ '' Redis connected successfully for caching'') w
      in w1\<lparr>listeners := (listeners w1)(h := Some False)\<rparr>)"

definition connection_lost :: string where
  "connection_lost = warning_sign @ '' Redis connection lost''"

definition onError :: "nat \<Rightarrow> js_error \<Rightarrow> bool \<Rightarrow> 'w world \<Rightarrow> 'w world" where
  "onError h err hasLoggedDisconnection w =
     (if \<not> hasLoggedDisconnection then
        (let w1 = console WARN connection_lost w
         in w1\<lparr>listeners := (listeners w1)(h := Some True)\<rparr>)
      else w)"

text \<open>An event reaches the listeners of its connection; without listeners nothing runs.\<close>

definition deliver :: "nat \<Rightarrow> redis_event \<Rightarrow> 'w world \<Rightarrow> 'w world" where
  "deliver h ev w =
     (case listeners w h of
        None \<Rightarrow> w
      | Some hasLoggedDisconnection \<Rightarrow>
          (case ev of
             Ready \<Rightarrow> onReady h w
           | ErrorEvent err \<Rightarrow> onError h err hasLoggedDisconnection w))"

fun deliver_all :: "nat \<Rightarrow> redis_event list \<Rightarrow> 'w world \<Rightarrow> 'w world" where
  "deliver_all h [] w = w"
| "deliver_all h (ev # evs) w = deliver_all h evs (deliver h ev w)"

text \<open>
  \<^verbatim>\<open>await redis.ping()\<close> on the long-lived connection: the events of the connection are
  delivered while the ping is awaited, then the ping settles.
\<close>

definition ping :: "nat \<Rightarrow> 'w world \<Rightarrow> (js_error + unit) \<times> 'w world" where
  "ping h w =
     (let w1 = deliver_all h (redis_events w) (emit (RedisPing h) w)
      in case redis_ping w of
           PingResolves t \<Rightarrow> (Inr (), elapse t w1)
         | PingRejects t e \<Rightarrow> (Inl e, elapse t w1))"

text \<open>
  \<^verbatim>\<open>Promise.race([testRedis.ping(), <timer of ms milliseconds that rejects>])\<close>: the one
  that settles first decides; the timer wins a tie (timers run before I/O callbacks).
\<close>

definition racePing :: "nat \<Rightarrow> nat \<Rightarrow> 'w world \<Rightarrow> (js_error + unit) \<times> 'w world" where
  "racePing h ms w =
     (let w1 = emit (RedisPing h) w
      in case redis_ping w of
           PingResolves t \<Rightarrow>
             (if t < ms then (Inr (), elapse t w1)
              else (Inl (Error ''Connection timeout''), elapse ms w1))
         | PingRejects t e \<Rightarrow>
             (if t < ms then (Inl e, elapse t w1)
              else (Inl (Error ''Connection timeout''), elapse ms w1)))"

section \<open>initializeRedis\<close>

text \<open>
  \<^verbatim>\<open>src/config/redis.ts\<close>, lines 13-64: the version \<^verbatim>\<open>initializeArweave\<close> imports. The local
  variable \<^verbatim>\<open>redis\<close> is declared before the \<^verbatim>\<open>try\<close> and assigned by the constructor; the
  \<^verbatim>\<open>catch\<close> block returns that variable.
\<close>

definition initializeRedis :: "'w world \<Rightarrow> (js_error + nat option) \<times> 'w world" where
  "initializeRedis w =
     (if \<not> truthy (REDIS_URL (env w)) then
        (Inr None, console LOG ''No REDIS_URL provided, proceeding without Redis cache'' w)
      else
        (let w1 = console LOG ''Attempting to connect to Redis.....'' w
         in case newRedis (the (REDIS_URL (env w))) w1 of
              (Inl error, w2) \<Rightarrow>
                (Inr None,
                 consoleWith WARN
                   (cross_mark @ '' Redis initial connection failed, proceeding without caching'')
                   error w2)
            | (Inr redis, w2) \<Rightarrow>
                (let w3 = w2\<lparr>listeners := (listeners w2)(redis := Some False)\<rparr>
                 in case ping redis w3 of
                      (Inr _, w4) \<Rightarrow>
                        (Inr (Some redis),
                         console LOG ''Redis ping successful - connection established'' w4)
                    | (Inl error, w4) \<Rightarrow>
                        (Inr (Some redis),
                         consoleWith WARN
                           (cross_mark @ '' Redis initial connection failed, proceeding without caching'')
                           error w4))))"

text \<open>
  \<^verbatim>\<open>src/utils/helper.ts\<close>, lines 84-132: the earlier version of the same function. Here
  \<^verbatim>\<open>redis\<close> is local to the \<^verbatim>\<open>try\<close> block and the \<^verbatim>\<open>catch\<close> block returns
  \<^verbatim>\<open>undefined\<close>.
\<close>

definition initializeRedis_helper :: "'w world \<Rightarrow> (js_error + nat option) \<times> 'w world" where
  "initializeRedis_helper w =
     (if \<not> truthy (REDIS_URL (env w)) then
        (Inr None, console LOG ''No REDIS_URL provided, proceeding without Redis cache'' w)
      else
        (let w1 = console LOG ''Attempting to connect to Redis.....'' w
         in case newRedis (the (REDIS_URL (env w))) w1 of
              (Inl error, w2) \<Rightarrow>
                (Inr None,
                 consoleWith WARN
                   (cross_mark @ '' Redis initial connection failed, proceeding without cache:'')
                   error w2)
            | (Inr redis, w2) \<Rightarrow>
                (let w3 = w2\<lparr>listeners := (listeners w2)(redis := Some False)\<rparr>
                 in case ping redis w3 of
                      (Inr _, w4) \<Rightarrow>
                        (Inr (Some redis),
                         console LOG ''Redis ping successful - connection established'' w4)
                    | (Inl error, w4) \<Rightarrow>
                        (Inr None,
                         consoleWith WARN
                           (cross_mark @ '' Redis initial connection failed, proceeding without cache:'')
                           error w4))))"

section \<open>checkArLocalRunning\<close>

text \<open>
  \<^verbatim>\<open>fetch(url, { signal })\<close>: the request settles as the outside decides, unless the
  abort timer (when there is one) fires first; the timer wins a tie.
\<close>

definition fetch :: "string \<Rightarrow> nat option \<Rightarrow> 'w world \<Rightarrow> (js_error + bool) \<times> 'w world" where
  "fetch url abortAfter w =
     (let w1 = emit (Fetch url) w;
          aborts = (\<lambda>t. case abortAfter of None \<Rightarrow> False | Some ms \<Rightarrow> \<not> t < ms);
          waited = (\<lambda>t. case abortAfter of None \<Rightarrow> t | Some ms \<Rightarrow> min t ms)
      in case fetch_info w of
           Responds t ok \<Rightarrow>
             (if aborts t then (Inl (Error ''This operation was aborted''), elapse (waited t) w1)
              else (Inr ok, elapse (waited t) w1))
         | Rejects t e \<Rightarrow>
             (if aborts t then (Inl (Error ''This operation was aborted''), elapse (waited t) w1)
              else (Inl e, elapse (waited t) w1)))"

text \<open>
  helper.ts lines 249-262: the request is aborted after 1000 ms, and every rejection
  is caught and answered with \<^verbatim>\<open>false\<close>.
\<close>

definition checkArLocalRunning :: "nat \<Rightarrow> 'w world \<Rightarrow> (js_error + bool) \<times> 'w world" where
  "checkArLocalRunning port w =
     (case fetch (''http://localhost:'' @ toString port @ ''/info'') (Some 1000) w of
        (Inr ok, w1) \<Rightarrow> (Inr ok, w1)
      | (Inl error, w1) \<Rightarrow> (Inr False, w1))"

text \<open>helper.ts lines 21-28: the earlier version, without the abort timer.\<close>

definition checkArLocalRunning_v1 :: "nat \<Rightarrow> 'w world \<Rightarrow> (js_error + bool) \<times> 'w world" where
  "checkArLocalRunning_v1 port w =
     (case fetch (''http://localhost:'' @ toString port @ ''/info'') None w of
        (Inr ok, w1) \<Rightarrow> (Inr ok, w1)
      | (Inl error, w1) \<Rightarrow> (Inr False, w1))"

section \<open>validateWalletAddress\<close>

text \<open>
  The library functions the wallet code calls: \<^verbatim>\<open>JSON.parse\<close>,
  \<^verbatim>\<open>JSON.stringify(wallet, null, 2)\<close> and \<^verbatim>\<open>warp.arweave.wallets.jwkToAddress\<close>. They are
  not code of this repository, so they are parameters of the model; the first and the
  last may throw.
\<close>

record 'w library =
  JSON_parse :: "string \<Rightarrow> js_error + 'w"
  JSON_stringify :: "'w \<Rightarrow> string"
  jwkToAddress :: "'w \<Rightarrow> js_error + string"

text \<open>helper.ts lines 45-68 (the same text at lines 279-302).\<close>

definition mismatch_message :: "string \<Rightarrow> string \<Rightarrow> string" where
  "mismatch_message expectedAddress walletAddress =
     ''Wallet address mismatch. Expected '' @ [CHR 0x27] @ expectedAddress @ [CHR 0x27]
       @ '' but loaded wallet has address '' @ [CHR 0x27] @ walletAddress @ [CHR 0x27]
       @ ''. Please verify the wallet file and expected address are correct.''"

definition validateWalletAddress ::
  "'w library \<Rightarrow> 'w \<Rightarrow> string \<Rightarrow> string \<Rightarrow> 'w world \<Rightarrow> (js_error + string) \<times> 'w world" where
  "validateWalletAddress L wallet expectedAddress walletSource w =
     (case jwkToAddress L wallet of
        Inl e \<Rightarrow> (Inl e, w)
      | Inr walletAddress \<Rightarrow>
          (if walletAddress \<noteq> expectedAddress then
             (let w1 = console ERROR (cross_mark @ '' Wallet address mismatch detected!'') w;
                  w2 = console ERROR (''Expected: '' @ expectedAddress) w1;
                  w3 = console ERROR (''Loaded:   '' @ walletAddress) w2;
                  w4 = console ERROR (''Source:   '' @ walletSource) w3
              in (Inl (Error (mismatch_message expectedAddress walletAddress)), w4))
           else (Inr walletAddress, w)))"

section \<open>checkRedisConnectivity\<close>

text \<open>The guard of helper.ts line 338 (and 168): a snapshot younger than 30000 ms.\<close>

definition fresh :: "'w world \<Rightarrow> bool" where
  "fresh w = (case healthCheckCache w of
                None \<Rightarrow> False
              | Some c \<Rightarrow> now w - timestamp c < 30000)"

definition remember :: "health_result \<Rightarrow> 'w world \<Rightarrow> 'w world" where
  "remember r w = w\<lparr>healthCheckCache := Some \<lparr>result = r, timestamp = now w\<rparr>\<rparr>"

text \<open>
  helper.ts lines 331-401. The probe connection is constructed before the \<^verbatim>\<open>try\<close>, its
  \<^verbatim>\<open>error\<close> listener does nothing, and the \<^verbatim>\<open>finally\<close> block disconnects it after the
  \<^verbatim>\<open>return\<close> of the \<^verbatim>\<open>try\<close> or of the \<^verbatim>\<open>catch\<close> block has cached its result.
\<close>

definition checkRedisConnectivity :: "'w world \<Rightarrow> (js_error + health_result) \<times> 'w world" where
  "checkRedisConnectivity w =
     (if fresh w then (Inr (result (the (healthCheckCache w))), w)
      else if \<not> truthy (REDIS_URL (env w)) then
        (let result = \<lparr>configured = False, connected = False, status = ''not configured'',
                        details = Some ''REDIS_URL environment variable not set''\<rparr>
         in (Inr result, remember result w))
      else
        (case newRedis (the (REDIS_URL (env w))) w of
           (Inl error, w1) \<Rightarrow> (Inl error, w1)
         | (Inr testRedis, w1) \<Rightarrow>
             (case racePing testRedis 2000 w1 of
                (Inr _, w2) \<Rightarrow>
                  (let result = \<lparr>configured = True, connected = True, status = ''ready'',
                                  details = Some ''Redis connection is healthy''\<rparr>
                   in (Inr result, disconnect testRedis (remember result w2)))
              | (Inl error, w2) \<Rightarrow>
                  (let result = \<lparr>configured = True, connected = False, status = ''disconnected'',
                                  details = Some ''Redis connection failed''\<rparr>
                   in (Inr result, disconnect testRedis (remember result w2))))))"

text \<open>
  helper.ts lines 161-229, the earlier version: the constructor is inside the \<^verbatim>\<open>try\<close>,
  the probe is disconnected right after the race, and there is no \<^verbatim>\<open>finally\<close>.
\<close>

definition checkRedisConnectivity_v1 :: "'w world \<Rightarrow> (js_error + health_result) \<times> 'w world" where
  "checkRedisConnectivity_v1 w =
     (if fresh w then (Inr (result (the (healthCheckCache w))), w)
      else if \<not> truthy (REDIS_URL (env w)) then
        (let result = \<lparr>configured = False, connected = False, status = ''not configured'',
                        details = Some ''REDIS_URL environment variable not set''\<rparr>
         in (Inr result, remember result w))
      else
        (case newRedis (the (REDIS_URL (env w))) w of
           (Inl error, w1) \<Rightarrow>
             (let result = \<lparr>configured = True, connected = False, status = ''disconnected'',
                             details = Some ''Redis connection failed''\<rparr>
              in (Inr result, remember result w1))
         | (Inr testRedis, w1) \<Rightarrow>
             (case racePing testRedis 2000 w1 of
                (Inr _, w2) \<Rightarrow>
                  (let w3 = disconnect testRedis w2;
                       result = \<lparr>configured = True, connected = True, status = ''ready'',
                                  details = Some ''Redis connection is healthy''\<rparr>
                   in (Inr result, remember result w3))
              | (Inl error, w2) \<Rightarrow>
                  (let result = \<lparr>configured = True, connected = False, status = ''disconnected'',
                                  details = Some ''Redis connection failed''\<rparr>
                   in (Inr result, remember result w2)))))"

section \<open>initializeArweave\<close>

datatype network = Mainnet | Local nat | Testnet

text \<open>
  A \<^verbatim>\<open>Warp\<close> instance, as far as the code configures it: the network of the
  \<^verbatim>\<open>WarpFactory\<close> call, the Redis client handed to \<^verbatim>\<open>useKVStorageFactory\<close> (if any),
  and the plugins added by \<^verbatim>\<open>use\<close>.
\<close>

record Warp =
  network :: network
  kvStorage :: "nat option"
  plugins :: "string list"

definition forNetwork :: "network \<Rightarrow> nat option \<Rightarrow> Warp" where
  "forNetwork n redis = \<lparr>network = n, kvStorage = redis, plugins = []\<rparr>"

definition use :: "string \<Rightarrow> Warp \<Rightarrow> Warp" where
  "use plugin wp = wp\<lparr>plugins := plugins wp @ [plugin]\<rparr>"

definition isProduction :: "process_env \<Rightarrow> bool" where
  "isProduction e = (case NODE_ENV e of None \<Rightarrow> False | Some s \<Rightarrow> trim s = ''production'')"

definition ARLOCAL_PORT :: nat where
  "ARLOCAL_PORT = 8080"

text \<open>
  arweave.ts lines 70-125: the network. Production takes the mainnet; every other mode
  asks \<^verbatim>\<open>checkArLocalRunning\<close> and takes the local node or, failing that, the testnet.
\<close>

definition createWarp :: "nat option \<Rightarrow> 'w world \<Rightarrow> (js_error + Warp) \<times> 'w world" where
  "createWarp redis w =
     (if isProduction (env w) then
        (Inr (forNetwork Mainnet redis),
         console LOG
           ''Configured for Arweave mainnet (production) using https://arweave.net gateway'' w)
      else
        (case checkArLocalRunning ARLOCAL_PORT w of
           (Inl e, w1) \<Rightarrow> (Inl e, w1)
         | (Inr isArLocalRunning, w1) \<Rightarrow>
             (if isArLocalRunning then
                (let w2 = console LOG
                            (''Configured for ArLocal development server on localhost:''
                               @ toString ARLOCAL_PORT) w1;
                     w3 = console WARN
                            (warning_sign
                               @ '' search routes may not function properly without Redis in ArLocal'')
                            w2
                 in (Inr (forNetwork (Local ARLOCAL_PORT) redis), w3))
              else
                (let w2 = console WARN
                            (''ArLocal not running on localhost:'' @ toString ARLOCAL_PORT) w1;
                     w3 = console WARN
                            ''To start ArLocal for local testing, run: npx arlocal 8080'' w2;
                     w4 = console WARN ''Falling back to Warp Testnet...'' w3;
                     w5 = console WARN
                            (warning_sign
                               @ '' Some endpoints may not work as expected in testnet mode'')
                            w4
                 in (Inr (forNetwork Testnet redis), w5)))))"

text \<open>The file system, as far as the code uses it (\<^verbatim>\<open>node:fs/promises\<close>).\<close>

definition readFile :: "string \<Rightarrow> 'w world \<Rightarrow> (js_error + string) \<times> 'w world" where
  "readFile path w =
     (case files w path of
        None \<Rightarrow>
          (Inl (Error (''ENOENT: no such file or directory, open '' @ [CHR 0x27] @ path @ [CHR 0x27])),
           emit (ReadFile path) w)
      | Some text \<Rightarrow> (Inr text, emit (ReadFile path) w))"

definition writeFile :: "string \<Rightarrow> string \<Rightarrow> 'w world \<Rightarrow> (js_error + unit) \<times> 'w world" where
  "writeFile path text w =
     (case write_error w of
        Some e \<Rightarrow> (Inl e, w)
      | None \<Rightarrow> (Inr (), emit (WriteFile path text) (w\<lparr>files := (files w)(path := Some text)\<rparr>)))"

definition generate :: "'w world \<Rightarrow> (js_error + 'w) \<times> 'w world" where
  "generate w = (generated w, emit WalletsGenerate w)"

text \<open>arweave.ts lines 135-152: the \<^verbatim>\<open>try\<close> block of the production branch.\<close>

definition productionWalletTry ::
  "'w library \<Rightarrow> string \<Rightarrow> string \<Rightarrow> 'w world \<Rightarrow> (js_error + 'w) \<times> 'w world" where
  "productionWalletTry L walletPath expectedAddress w =
     (case readFile walletPath w of
        (Inl e, w1) \<Rightarrow> (Inl e, w1)
      | (Inr text, w1) \<Rightarrow>
          (case JSON_parse L text of
             Inl e \<Rightarrow> (Inl e, w1)
           | Inr wallet \<Rightarrow>
               (case validateWalletAddress L wallet expectedAddress walletPath w1 of
                  (Inl e, w2) \<Rightarrow> (Inl e, w2)
                | (Inr walletAddress, w2) \<Rightarrow>
                    (let w3 = console LOG ''Production wallet loaded successfully'' w2;
                         w4 = console LOG (''Wallet Source: '' @ walletPath) w3;
                         w5 = console LOG (''Wallet Address: '' @ walletAddress) w4;
                         w6 = console LOG ''Wallet validation passed.'' w5
                     in (Inr wallet, w6)))))"

definition load_failure :: js_error where
  "load_failure = Error
     ''Production wallet is required but could not be loaded. Please check ARWEAVE_WALLET_PATH and ensure the wallet file exists and contains valid JSON.''"

definition missing_configuration :: js_error where
  "missing_configuration = Error
     ''Production environment requires both SERVICE_WALLET_ADDRESS and ARWEAVE_WALLET_PATH environment variables to be set.''"

text \<open>
  arweave.ts lines 132-164: the production branch. Whatever the \<^verbatim>\<open>try\<close> block throws
  is logged and replaced by one fixed error.
\<close>

definition productionWallet :: "'w library \<Rightarrow> 'w world \<Rightarrow> (js_error + 'w) \<times> 'w world" where
  "productionWallet L w =
     (if truthy (SERVICE_WALLET_ADDRESS (env w)) \<and> truthy (ARWEAVE_WALLET_PATH (env w)) then
        (case productionWalletTry L (the (ARWEAVE_WALLET_PATH (env w)))
                (the (SERVICE_WALLET_ADDRESS (env w))) w of
           (Inr wallet, w1) \<Rightarrow> (Inr wallet, w1)
         | (Inl error, w1) \<Rightarrow>
             (Inl load_failure,
              consoleWith ERROR (cross_mark @ '' Failed to load production wallet:'') error w1))
      else (Inl missing_configuration, w))"

definition devWalletPath :: string where
  "devWalletPath = ''./dev-wallet.json''"

text \<open>arweave.ts lines 169-178: the \<^verbatim>\<open>try\<close> block of the development branch.\<close>

definition developmentWalletTry :: "'w library \<Rightarrow> 'w world \<Rightarrow> (js_error + 'w) \<times> 'w world" where
  "developmentWalletTry L w =
     (case readFile devWalletPath w of
        (Inl e, w1) \<Rightarrow> (Inl e, w1)
      | (Inr text, w1) \<Rightarrow>
          (case JSON_parse L text of
             Inl e \<Rightarrow> (Inl e, w1)
           | Inr wallet \<Rightarrow>
               (case jwkToAddress L wallet of
                  Inl e \<Rightarrow> (Inl e, w1)
                | Inr walletAddress \<Rightarrow>
                    (let w2 = console LOG ''Development wallet loaded from existing file'' w1;
                         w3 = console LOG (''Wallet Source: '' @ devWalletPath) w2;
                         w4 = console LOG (''Wallet Address: '' @ walletAddress) w3
                     in (Inr wallet, w4)))))"

text \<open>
  arweave.ts lines 165-196: the development branch. Its \<^verbatim>\<open>catch\<close> block ignores the
  error, generates a keypair and writes it; what that block throws is not caught.
\<close>

definition developmentWallet :: "'w library \<Rightarrow> 'w world \<Rightarrow> (js_error + 'w) \<times> 'w world" where
  "developmentWallet L w =
     (case developmentWalletTry L w of
        (Inr wallet, w1) \<Rightarrow> (Inr wallet, w1)
      | (Inl error, w1) \<Rightarrow>
          (let w2 = console LOG ''Development wallet not found, creating new one...'' w1
           in case generate w2 of
                (Inl e, w3) \<Rightarrow> (Inl e, w3)
              | (Inr wallet, w3) \<Rightarrow>
                  (case jwkToAddress L wallet of
                     Inl e \<Rightarrow> (Inl e, w3)
                   | Inr walletAddress \<Rightarrow>
                       (case writeFile devWalletPath (JSON_stringify L wallet) w3 of
                          (Inl e, w4) \<Rightarrow> (Inl e, w4)
                        | (Inr _, w4) \<Rightarrow>
                            (let w5 = console LOG ''New development wallet created and saved'' w4;
                                 w6 = console LOG (''Wallet Source: '' @ devWalletPath) w5;
                                 w7 = console LOG (''Wallet Address: '' @ walletAddress) w6;
                                 w8 = console LOG
                                        ''For production deployment, configure SERVICE_WALLET_ADDRESS and ARWEAVE_WALLET_PATH environment variables''
                                        w7
                             in (Inr wallet, w8))))))"

text \<open>
  arweave.ts lines 21-25 and 62-207: the handle and the whole function. (The local
  variables \<^verbatim>\<open>redis\<close> and \<^verbatim>\<open>wallet\<close> are \<open>client\<close> and \<open>jwk\<close> here, the names of the
  fields being taken.)
\<close>

record 'w ArweaveConfig =
  warp :: Warp
  wallet :: 'w
  redis :: "nat option"

definition initializeArweave ::
  "'w library \<Rightarrow> 'w world \<Rightarrow> (js_error + 'w ArweaveConfig) \<times> 'w world" where
  "initializeArweave L w =
     (case initializeRedis w of
        (Inl e, w1) \<Rightarrow> (Inl e, w1)
      | (Inr client, w1) \<Rightarrow>
          (case createWarp client w1 of
             (Inl e, w2) \<Rightarrow> (Inl e, w2)
           | (Inr wp, w2) \<Rightarrow>
               (case (if isProduction (env w) then productionWallet L w2
                      else developmentWallet L w2) of
                  (Inl e, w3) \<Rightarrow> (Inl e, w3)
                | (Inr jwk, w3) \<Rightarrow>
                    (Inr \<lparr>warp = use ''DeployPlugin'' wp, wallet = jwk, redis = client\<rparr>,
                     console LOG
                       (''Arweave blockchain configured for ''
                          @ (if isProduction (env w) then ''production'' else ''development'')
                          @ '' environment'')
                       w3))))"

section \<open>Notions of the specification\<close>

text \<open>The effects a call adds to the trace.\<close>

definition effects_of :: "('w world \<Rightarrow> 'a \<times> 'w world) \<Rightarrow> 'w world \<Rightarrow> effect list" where
  "effects_of f w = drop (length (trace w)) (trace (snd (f w)))"

text \<open>
  What the local probe amounts to: the node answered within the 1000 ms of the abort
  timer, and the answer was \<^verbatim>\<open>ok\<close>.
\<close>

definition local_reachable :: "fetch_outcome \<Rightarrow> bool" where
  "local_reachable f = (case f of Responds t ok \<Rightarrow> t < 1000 \<and> ok | Rejects t e \<Rightarrow> False)"

text \<open>
  The log-storm suppression of section 4.3: the number of maximal runs of consecutive
  \<^verbatim>\<open>error\<close> events in a sequence of events (a run ends at the next \<^verbatim>\<open>ready\<close> event or at
  the end of the sequence), and the number of disconnection warnings on the console.
\<close>

fun is_error :: "redis_event \<Rightarrow> bool" where
  "is_error Ready = False"
| "is_error (ErrorEvent e) = True"

function error_runs :: "redis_event list \<Rightarrow> nat" where
  "error_runs [] = 0"
| "error_runs (Ready # evs) = error_runs evs"
| "error_runs (ErrorEvent e # evs) = Suc (error_runs (dropWhile is_error evs))"
  by pat_completeness auto
termination
  by (relation "measure length") (auto simp: length_dropWhile_le less_Suc_eq_le)

text \<open>
  The effects of provisioning an identity: a call of the key generator, a write of a file.
\<close>

fun is_provisioning :: "effect \<Rightarrow> bool" where
  "is_provisioning WalletsGenerate = True"
| "is_provisioning (WriteFile path text) = True"
| "is_provisioning e = False"

definition provisioning :: "'w world \<Rightarrow> effect list" where
  "provisioning w = filter is_provisioning (trace w)"

definition warnings :: "'w world \<Rightarrow> nat" where
  "warnings w = count_list (trace w) (Console WARN connection_lost)"

text \<open>The three shapes of a health snapshot.\<close>

definition shaped :: "health_result \<Rightarrow> bool" where
  "shaped r =
     ((\<not> configured r \<and> \<not> connected r \<and> status r = ''not configured'')
      \<or> (configured r \<and> connected r \<and> status r = ''ready'')
      \<or> (configured r \<and> \<not> connected r \<and> status r = ''disconnected''))"

definition not_configured :: health_result where
  "not_configured = \<lparr>configured = False, connected = False, status = ''not configured'',
                      details = Some ''REDIS_URL environment variable not set''\<rparr>"

definition status_of :: "bool \<Rightarrow> bool \<Rightarrow> string" where
  "status_of conf conn =
     (if \<not> conf then ''not configured'' else if conn then ''ready'' else ''disconnected'')"

definition cache_shaped :: "'w world \<Rightarrow> bool" where
  "cache_shaped w = (case healthCheckCache w of None \<Rightarrow> True | Some c \<Rightarrow> shaped (result c))"

text \<open>
  The worlds a process can be in when \<^verbatim>\<open>checkRedisConnectivity\<close> is called: the module
  starts with \<^verbatim>\<open>healthCheckCache = null\<close>; the variable is not exported, so only the calls
  of the function (either version) write it, and whatever else happens in between
  leaves it as it is.
\<close>

inductive reachable :: "'w world \<Rightarrow> bool" where
  start: "healthCheckCache w = None \<Longrightarrow> reachable w"
| call: "reachable w \<Longrightarrow> reachable (snd (checkRedisConnectivity w))"
| call_v1: "reachable w \<Longrightarrow> reachable (snd (checkRedisConnectivity_v1 w))"
| outside: "reachable w \<Longrightarrow> healthCheckCache w' = healthCheckCache w \<Longrightarrow> reachable w'"

section \<open>Concrete worlds\<close>

text \<open>
  A toy library on keypairs that are strings, and a world with nothing configured, no
  file, a Redis server that answers within 3 ms and no local node.
\<close>

definition lib0 :: "string library" where
  "lib0 = \<lparr>JSON_parse = (\<lambda>text. if text = [] then Inl (Error ''Unexpected end of JSON input'')
                                  else Inr text),
           JSON_stringify = (\<lambda>jwk. jwk),
           jwkToAddress = (\<lambda>jwk. Inr (''address-of-'' @ jwk))\<rparr>"

definition world0 :: "string world" where
  "world0 = \<lparr>env = \<lparr>NODE_ENV = None, REDIS_URL = None, SERVICE_WALLET_ADDRESS = None,
                     ARWEAVE_WALLET_PATH = None\<rparr>,
             files = (\<lambda>path. None), now = 0, trace = [], connections = [], handles = 0,
             listeners = (\<lambda>h. None), healthCheckCache = None,
             redis_new = None, redis_ping = PingResolves 3, redis_events = [Ready],
             fetch_info = Rejects 2 (Error ''fetch failed''),
             generated = Inr ''jwk-1'', write_error = None\<rparr>"

text \<open>A production deployment whose keypair file holds another key than the expected one.\<close>

definition world_mismatch :: "string world" where
  "world_mismatch = world0
     \<lparr>env := \<lparr>NODE_ENV = Some ''production'', REDIS_URL = None,
               SERVICE_WALLET_ADDRESS = Some ''address-of-jwk-A'',
               ARWEAVE_WALLET_PATH = Some ''/run/secrets/wallet.json''\<rparr>,
      files := (\<lambda>path. if path = ''/run/secrets/wallet.json'' then Some ''jwk-B'' else None)\<rparr>"

text \<open>A production deployment without the expected address.\<close>

definition world_unset :: "string world" where
  "world_unset = world0
     \<lparr>env := \<lparr>NODE_ENV = Some ''production'', REDIS_URL = None,
               SERVICE_WALLET_ADDRESS = None,
               ARWEAVE_WALLET_PATH = Some ''/run/secrets/wallet.json''\<rparr>\<rparr>"

text \<open>A Redis server that is configured but refuses the connection after 5 ms.\<close>

definition world_refused :: "string world" where
  "world_refused = world0
     \<lparr>env := \<lparr>NODE_ENV = None, REDIS_URL = Some ''redis://localhost:6379'',
               SERVICE_WALLET_ADDRESS = None, ARWEAVE_WALLET_PATH = None\<rparr>,
      redis_ping := PingRejects 5 (Error ''connect ECONNREFUSED 127.0.0.1:6379''),
      redis_events := [ErrorEvent (Error ''connect ECONNREFUSED 127.0.0.1:6379'')]\<rparr>"

text \<open>A Redis server that is configured and answers.\<close>

definition world_redis :: "string world" where
  "world_redis = world0
     \<lparr>env := \<lparr>NODE_ENV = None, REDIS_URL = Some ''redis://localhost:6379'',
               SERVICE_WALLET_ADDRESS = None, ARWEAVE_WALLET_PATH = None\<rparr>\<rparr>"

text \<open>Nothing configured, and a snapshot taken 30 seconds ago.\<close>

definition world_stale :: "string world" where
  "world_stale = world0
     \<lparr>now := 30000,
      healthCheckCache := Some \<lparr>result = \<lparr>configured = False, connected = False,
                                           status = ''not configured'',
                                           details = Some ''REDIS_URL environment variable not set''\<rparr>,
                                timestamp = 0\<rparr>\<rparr>"

section \<open>Frame lemmas\<close>

lemmas world_defs = world0_def world_mismatch_def world_unset_def world_refused_def
  world_redis_def world_stale_def

lemma emit_sel [simp]:
  "env (emit e w) = env w" "files (emit e w) = files w" "now (emit e w) = now w"
  "trace (emit e w) = trace w @ [e]" "connections (emit e w) = connections w"
  "handles (emit e w) = handles w" "listeners (emit e w) = listeners w"
  "healthCheckCache (emit e w) = healthCheckCache w" "redis_new (emit e w) = redis_new w"
  "redis_ping (emit e w) = redis_ping w" "redis_events (emit e w) = redis_events w"
  "fetch_info (emit e w) = fetch_info w" "generated (emit e w) = generated w"
  "write_error (emit e w) = write_error w"
  by (simp_all add: emit_def)

lemma console_sel [simp]:
  "env (console l s w) = env w" "files (console l s w) = files w"
  "now (console l s w) = now w" "trace (console l s w) = trace w @ [Console l s]"
  "connections (console l s w) = connections w" "handles (console l s w) = handles w"
  "listeners (console l s w) = listeners w"
  "healthCheckCache (console l s w) = healthCheckCache w"
  "redis_new (console l s w) = redis_new w" "redis_ping (console l s w) = redis_ping w"
  "redis_events (console l s w) = redis_events w" "fetch_info (console l s w) = fetch_info w"
  "generated (console l s w) = generated w" "write_error (console l s w) = write_error w"
  by (simp_all add: console_def)

lemma consoleWith_sel [simp]:
  "env (consoleWith l s e w) = env w" "files (consoleWith l s e w) = files w"
  "now (consoleWith l s e w) = now w"
  "trace (consoleWith l s e w) = trace w @ [ConsoleWith l s e]"
  "connections (consoleWith l s e w) = connections w"
  "handles (consoleWith l s e w) = handles w" "listeners (consoleWith l s e w) = listeners w"
  "healthCheckCache (consoleWith l s e w) = healthCheckCache w"
  "redis_new (consoleWith l s e w) = redis_new w"
  "redis_ping (consoleWith l s e w) = redis_ping w"
  "redis_events (consoleWith l s e w) = redis_events w"
  "fetch_info (consoleWith l s e w) = fetch_info w"
  "generated (consoleWith l s e w) = generated w"
  "write_error (consoleWith l s e w) = write_error w"
  by (simp_all add: consoleWith_def)

lemma elapse_sel [simp]:
  "env (elapse t w) = env w" "files (elapse t w) = files w"
  "now (elapse t w) = now w + int t" "trace (elapse t w) = trace w"
  "connections (elapse t w) = connections w" "handles (elapse t w) = handles w"
  "listeners (elapse t w) = listeners w"
  "healthCheckCache (elapse t w) = healthCheckCache w"
  "redis_new (elapse t w) = redis_new w" "redis_ping (elapse t w) = redis_ping w"
  "redis_events (elapse t w) = redis_events w" "fetch_info (elapse t w) = fetch_info w"
  "generated (elapse t w) = generated w" "write_error (elapse t w) = write_error w"
  by (simp_all add: elapse_def)

section \<open>The health probe: lemmas\<close>

lemma racePing_sel:
  "trace (snd (racePing h ms w)) = trace w @ [RedisPing h]"
  "connections (snd (racePing h ms w)) = connections w"
  "healthCheckCache (snd (racePing h ms w)) = healthCheckCache w"
  "now (snd (racePing h ms w)) = now w + int (min ms (case redis_ping w of PingResolves t \<Rightarrow> t | PingRejects t e \<Rightarrow> t))"
  by (simp_all add: racePing_def Let_def min_def split: ping_outcome.splits)

lemma racePing_result:
  "fst (racePing h ms w) =
     (case redis_ping w of
        PingResolves t \<Rightarrow> if t < ms then Inr () else Inl (Error ''Connection timeout'')
      | PingRejects t e \<Rightarrow> if t < ms then Inl e else Inl (Error ''Connection timeout''))"
  by (simp add: racePing_def Let_def split: ping_outcome.splits)

lemma fresh_returns_cache:
  assumes "fresh w"
  shows "checkRedisConnectivity w = (Inr (result (the (healthCheckCache w))), w)"
    and "checkRedisConnectivity_v1 w = (Inr (result (the (healthCheckCache w))), w)"
  using assms by (simp_all add: checkRedisConnectivity_def checkRedisConnectivity_v1_def)

lemma unconfigured_synthesizes:
  assumes "\<not> fresh w" "\<not> truthy (REDIS_URL (env w))"
  shows "checkRedisConnectivity w = (Inr not_configured, remember not_configured w)"
    and "checkRedisConnectivity_v1 w = (Inr not_configured, remember not_configured w)"
  using assms
  by (simp_all add: checkRedisConnectivity_def checkRedisConnectivity_v1_def Let_def
        not_configured_def)

lemma probe_v2:
  assumes "\<not> fresh w" "truthy (REDIS_URL (env w))" "redis_new w = None"
  shows "\<exists>r. fst (checkRedisConnectivity w) = Inr r
           \<and> configured r
           \<and> connected r = (case redis_ping w of PingResolves t \<Rightarrow> t < 2000 | PingRejects t e \<Rightarrow> False)
           \<and> shaped r
           \<and> healthCheckCache (snd (checkRedisConnectivity w))
               = Some \<lparr>result = r, timestamp = now (snd (checkRedisConnectivity w))\<rparr>"
    and "effects_of checkRedisConnectivity w
           = [RedisNew (handles w) (the (REDIS_URL (env w))), RedisPing (handles w),
              RedisDisconnect (handles w)]"
    and "handles w \<notin> set (connections (snd (checkRedisConnectivity w)))"
  using assms
  by (simp_all add: checkRedisConnectivity_def newRedis_def racePing_def remember_def
        disconnect_def effects_of_def shaped_def Let_def split: ping_outcome.splits)

lemma probe_v1:
  assumes "\<not> fresh w" "truthy (REDIS_URL (env w))" "redis_new w = None"
  shows "\<exists>r. fst (checkRedisConnectivity_v1 w) = Inr r
           \<and> configured r
           \<and> connected r = (case redis_ping w of PingResolves t \<Rightarrow> t < 2000 | PingRejects t e \<Rightarrow> False)
           \<and> shaped r
           \<and> healthCheckCache (snd (checkRedisConnectivity_v1 w))
               = Some \<lparr>result = r, timestamp = now (snd (checkRedisConnectivity_v1 w))\<rparr>"
    and "take 2 (effects_of checkRedisConnectivity_v1 w)
           = [RedisNew (handles w) (the (REDIS_URL (env w))), RedisPing (handles w)]"
  using assms
  by (simp_all add: checkRedisConnectivity_v1_def newRedis_def racePing_def remember_def
        disconnect_def effects_of_def shaped_def Let_def split: ping_outcome.splits)


lemma construction_failure_v2:
  assumes "\<not> fresh w" "truthy (REDIS_URL (env w))" "redis_new w = Some e"
  shows "checkRedisConnectivity w = (Inl e, w)"
  using assms by (simp add: checkRedisConnectivity_def newRedis_def)

lemma shaped_not_configured: "shaped not_configured"
  by (simp add: shaped_def not_configured_def)

lemma cache_shaped_step:
  assumes "cache_shaped w"
  shows "cache_shaped (snd (checkRedisConnectivity w))"
    and "fst (checkRedisConnectivity w) = Inr r \<Longrightarrow> shaped r"
proof -
  consider (hit) "fresh w"
    | (unset) "\<not> fresh w" "\<not> truthy (REDIS_URL (env w))"
    | (throws) e where "\<not> fresh w" "truthy (REDIS_URL (env w))" "redis_new w = Some e"
    | (probe) "\<not> fresh w" "truthy (REDIS_URL (env w))" "redis_new w = None"
    by (cases "redis_new w") auto
  then have "cache_shaped (snd (checkRedisConnectivity w))
      \<and> (fst (checkRedisConnectivity w) = Inr r \<longrightarrow> shaped r)"
  proof cases
    case hit
    with assms show ?thesis
      by (auto simp: fresh_returns_cache cache_shaped_def fresh_def split: option.splits)
  next
    case unset
    then show ?thesis
      by (auto simp: unconfigured_synthesizes remember_def cache_shaped_def shaped_not_configured)
  next
    case throws
    with assms show ?thesis by (simp add: construction_failure_v2)
  next
    case probe
    from probe_v2(1) [OF probe] show ?thesis
      by (auto simp: cache_shaped_def)
  qed
  then show "cache_shaped (snd (checkRedisConnectivity w))"
    and "fst (checkRedisConnectivity w) = Inr r \<Longrightarrow> shaped r" by simp_all
qed

lemma construction_failure_v1:
  assumes "\<not> fresh w" "truthy (REDIS_URL (env w))" "redis_new w = Some e"
  shows "checkRedisConnectivity_v1 w =
           (Inr \<lparr>configured = True, connected = False, status = ''disconnected'',
                  details = Some ''Redis connection failed''\<rparr>,
            remember \<lparr>configured = True, connected = False, status = ''disconnected'',
                       details = Some ''Redis connection failed''\<rparr> w)"
  using assms by (simp add: checkRedisConnectivity_v1_def newRedis_def Let_def)

lemma cache_shaped_step_v1:
  assumes "cache_shaped w"
  shows "cache_shaped (snd (checkRedisConnectivity_v1 w))"
    and "fst (checkRedisConnectivity_v1 w) = Inr r \<Longrightarrow> shaped r"
proof -
  consider (hit) "fresh w"
    | (unset) "\<not> fresh w" "\<not> truthy (REDIS_URL (env w))"
    | (throws) e where "\<not> fresh w" "truthy (REDIS_URL (env w))" "redis_new w = Some e"
    | (probe) "\<not> fresh w" "truthy (REDIS_URL (env w))" "redis_new w = None"
    by (cases "redis_new w") auto
  then have "cache_shaped (snd (checkRedisConnectivity_v1 w))
      \<and> (fst (checkRedisConnectivity_v1 w) = Inr r \<longrightarrow> shaped r)"
  proof cases
    case hit
    with assms show ?thesis
      by (auto simp: fresh_returns_cache cache_shaped_def fresh_def split: option.splits)
  next
    case unset
    then show ?thesis
      by (auto simp: unconfigured_synthesizes remember_def cache_shaped_def shaped_not_configured)
  next
    case throws
    then show ?thesis
      by (auto simp: construction_failure_v1 remember_def cache_shaped_def shaped_def)
  next
    case probe
    from probe_v1(1) [OF probe] show ?thesis
      by (auto simp: cache_shaped_def)
  qed
  then show "cache_shaped (snd (checkRedisConnectivity_v1 w))"
    and "fst (checkRedisConnectivity_v1 w) = Inr r \<Longrightarrow> shaped r" by simp_all
qed

lemma reachable_cache_shaped: "reachable w \<Longrightarrow> cache_shaped w"
proof (induction rule: reachable.induct)
  case (start w)
  then show ?case by (simp add: cache_shaped_def)
next
  case (call w)
  then show ?case by (simp add: cache_shaped_step)
next
  case (call_v1 w)
  then show ?case by (simp add: cache_shaped_step_v1)
next
  case (outside w w')
  then show ?case by (simp add: cache_shaped_def)
qed

lemma shaped_consequences:
  "shaped r \<Longrightarrow> (connected r \<longrightarrow> configured r) \<and> status r = status_of (configured r) (connected r)"
  by (auto simp: shaped_def status_of_def)

text \<open>
  Claim C10. Every snapshot that \<^verbatim>\<open>checkRedisConnectivity\<close> returns, computed or served from
  the cache, in any world the process can reach, has one of the three shapes
  (not configured, ready, disconnected): \<open>connected\<close> implies \<open>configured\<close>, and the status
  string is determined by the two booleans. This holds of both versions of the function.
\<close>

theorem snapshot_shapes:
  assumes "reachable w"
  shows "(\<forall>r. fst (checkRedisConnectivity w) = Inr r \<longrightarrow>
            shaped r \<and> (connected r \<longrightarrow> configured r)
            \<and> status r = status_of (configured r) (connected r))
       \<and> (\<forall>r. fst (checkRedisConnectivity_v1 w) = Inr r \<longrightarrow>
            shaped r \<and> (connected r \<longrightarrow> configured r)
            \<and> status r = status_of (configured r) (connected r))"
  using reachable_cache_shaped [OF assms] cache_shaped_step(2) cache_shaped_step_v1(2)
    shaped_consequences by blast


theorem snapshot_shapes_witness:
  "reachable (snd (checkRedisConnectivity world_redis))
   \<and> fst (checkRedisConnectivity (snd (checkRedisConnectivity world_redis)))
       = Inr \<lparr>configured = True, connected = True, status = ''ready'',
               details = Some ''Redis connection is healthy''\<rparr>
   \<and> shaped \<lparr>configured = True, connected = True, status = ''ready'',
               details = Some ''Redis connection is healthy''\<rparr>"
proof -
  have "reachable world_redis"
    by (rule reachable.start) (simp add: world_defs)
  then have r: "reachable (snd (checkRedisConnectivity world_redis))"
    by (rule reachable.call)
  have run: "fst (checkRedisConnectivity (snd (checkRedisConnectivity world_redis)))
       = Inr \<lparr>configured = True, connected = True, status = ''ready'',
               details = Some ''Redis connection is healthy''\<rparr>"
    by (simp add: checkRedisConnectivity_def fresh_def truthy_def newRedis_def racePing_def
          remember_def disconnect_def world_defs Let_def)
  from snapshot_shapes [OF r] run
  have "shaped \<lparr>configured = True, connected = True, status = ''ready'',
               details = Some ''Redis connection is healthy''\<rparr>"
    by blast
  with run r show ?thesis by simp
qed

text \<open>
  Claim C7. When no snapshot younger than 30 seconds is cached and \<^verbatim>\<open>REDIS_URL\<close> is not
  configured (undefined or empty), \<^verbatim>\<open>checkRedisConnectivity\<close> returns the snapshot with
  \<open>configured = False\<close> and \<open>connected = False\<close>, caches it with the current time, and adds
  no effect to the trace: no probe connection is constructed and no ping is issued. The
  earlier version of the function does the same.
\<close>

theorem checkRedisConnectivity_unconfigured:
  assumes "\<not> fresh w" and "\<not> truthy (REDIS_URL (env w))"
  shows "fst (checkRedisConnectivity w) = Inr not_configured
       \<and> \<not> configured not_configured \<and> \<not> connected not_configured
       \<and> healthCheckCache (snd (checkRedisConnectivity w))
           = Some \<lparr>result = not_configured, timestamp = now w\<rparr>
       \<and> effects_of checkRedisConnectivity w = []
       \<and> connections (snd (checkRedisConnectivity w)) = connections w
       \<and> handles (snd (checkRedisConnectivity w)) = handles w
       \<and> checkRedisConnectivity_v1 w = checkRedisConnectivity w"
  using unconfigured_synthesizes [OF assms]
  by (simp add: remember_def effects_of_def not_configured_def)

theorem checkRedisConnectivity_unconfigured_witness:
  "\<not> fresh world0 \<and> \<not> truthy (REDIS_URL (env world0))
   \<and> fst (checkRedisConnectivity world0) = Inr not_configured
   \<and> effects_of checkRedisConnectivity world0 = []"
proof -
  have h: "\<not> fresh world0" "\<not> truthy (REDIS_URL (env world0))"
    by (simp_all add: fresh_def truthy_def world0_def)
  from checkRedisConnectivity_unconfigured [OF h] h show ?thesis by simp
qed

text \<open>
  Claim C6, as stated, fails: with a snapshot that is 30 seconds old and no \<^verbatim>\<open>REDIS_URL\<close>,
  the call performs no probe at all (no connection, no ping).
\<close>

theorem checkRedisConnectivity_stale_counterexample:
  "healthCheckCache world_stale = Some \<lparr>result = not_configured, timestamp = 0\<rparr>
   \<and> 30000 \<le> now world_stale - 0
   \<and> effects_of checkRedisConnectivity world_stale = []
   \<and> effects_of checkRedisConnectivity_v1 world_stale = []"
  by (simp add: checkRedisConnectivity_def checkRedisConnectivity_v1_def effects_of_def
        fresh_def truthy_def remember_def not_configured_def world_defs Let_def)

text \<open>
  Claim C6, amended. With a cached snapshot less than 30000 ms old, the call returns that
  snapshot and leaves the world as it is (no connection, no ping, the cache unchanged).
  With a cached snapshot 30000 ms old or older: when \<^verbatim>\<open>REDIS_URL\<close> is configured and the
  probe connection is constructed, the call performs a fresh probe (one new connection,
  one ping) and replaces the cache entry by the snapshot it returns, stamped with the time
  of completion; when \<^verbatim>\<open>REDIS_URL\<close> is not configured, it replaces the cache entry by the
  not-configured snapshot without a probe.
\<close>

theorem checkRedisConnectivity_memoized:
  assumes "healthCheckCache w = Some c"
  shows "(now w - timestamp c < 30000 \<longrightarrow>
            checkRedisConnectivity w = (Inr (result c), w)
            \<and> checkRedisConnectivity_v1 w = (Inr (result c), w))
       \<and> (30000 \<le> now w - timestamp c \<and> truthy (REDIS_URL (env w)) \<and> redis_new w = None \<longrightarrow>
            (\<exists>r. fst (checkRedisConnectivity w) = Inr r
                \<and> healthCheckCache (snd (checkRedisConnectivity w))
                    = Some \<lparr>result = r, timestamp = now (snd (checkRedisConnectivity w))\<rparr>)
            \<and> effects_of checkRedisConnectivity w
                = [RedisNew (handles w) (the (REDIS_URL (env w))), RedisPing (handles w),
                   RedisDisconnect (handles w)]
            \<and> (\<exists>r. fst (checkRedisConnectivity_v1 w) = Inr r
                \<and> healthCheckCache (snd (checkRedisConnectivity_v1 w))
                    = Some \<lparr>result = r, timestamp = now (snd (checkRedisConnectivity_v1 w))\<rparr>)
            \<and> take 2 (effects_of checkRedisConnectivity_v1 w)
                = [RedisNew (handles w) (the (REDIS_URL (env w))), RedisPing (handles w)])
       \<and> (30000 \<le> now w - timestamp c \<and> \<not> truthy (REDIS_URL (env w)) \<longrightarrow>
            checkRedisConnectivity w = (Inr not_configured, remember not_configured w)
            \<and> checkRedisConnectivity_v1 w = (Inr not_configured, remember not_configured w))"
proof (intro conjI impI)
  assume "now w - timestamp c < 30000"
  with assms have "fresh w" by (simp add: fresh_def)
  with assms show "checkRedisConnectivity w = (Inr (result c), w)"
    and "checkRedisConnectivity_v1 w = (Inr (result c), w)"
    by (simp_all add: fresh_returns_cache)
next
  assume a: "30000 \<le> now w - timestamp c \<and> truthy (REDIS_URL (env w)) \<and> redis_new w = None"
  with assms have h: "\<not> fresh w" "truthy (REDIS_URL (env w))" "redis_new w = None"
    by (simp_all add: fresh_def)
  from probe_v2(1) [OF h]
  show "\<exists>r. fst (checkRedisConnectivity w) = Inr r
                \<and> healthCheckCache (snd (checkRedisConnectivity w))
                    = Some \<lparr>result = r, timestamp = now (snd (checkRedisConnectivity w))\<rparr>"
    by blast
  from probe_v2(2) [OF h]
  show "effects_of checkRedisConnectivity w
                = [RedisNew (handles w) (the (REDIS_URL (env w))), RedisPing (handles w),
                   RedisDisconnect (handles w)]" .
  from probe_v1(1) [OF h]
  show "\<exists>r. fst (checkRedisConnectivity_v1 w) = Inr r
                \<and> healthCheckCache (snd (checkRedisConnectivity_v1 w))
                    = Some \<lparr>result = r, timestamp = now (snd (checkRedisConnectivity_v1 w))\<rparr>"
    by blast
  from probe_v1(2) [OF h]
  show "take 2 (effects_of checkRedisConnectivity_v1 w)
                = [RedisNew (handles w) (the (REDIS_URL (env w))), RedisPing (handles w)]" .
next
  assume a: "30000 \<le> now w - timestamp c \<and> \<not> truthy (REDIS_URL (env w))"
  with assms have h: "\<not> fresh w" "\<not> truthy (REDIS_URL (env w))"
    by (simp_all add: fresh_def)
  from unconfigured_synthesizes [OF h]
  show "checkRedisConnectivity w = (Inr not_configured, remember not_configured w)"
    and "checkRedisConnectivity_v1 w = (Inr not_configured, remember not_configured w)"
    by simp_all
qed

theorem checkRedisConnectivity_memoized_witness:
  "healthCheckCache world_stale = Some \<lparr>result = not_configured, timestamp = 0\<rparr>
   \<and> 30000 \<le> now world_stale - 0 \<and> \<not> truthy (REDIS_URL (env world_stale))
   \<and> checkRedisConnectivity world_stale = (Inr not_configured, remember not_configured world_stale)
   \<and> healthCheckCache (world_stale\<lparr>now := 29999\<rparr>)
       = Some \<lparr>result = not_configured, timestamp = 0\<rparr>
   \<and> now (world_stale\<lparr>now := 29999\<rparr>) - 0 < 30000
   \<and> checkRedisConnectivity (world_stale\<lparr>now := 29999\<rparr>)
       = (Inr not_configured, world_stale\<lparr>now := 29999\<rparr>)
   \<and> healthCheckCache (world_stale\<lparr>env := env world_redis\<rparr>)
       = Some \<lparr>result = not_configured, timestamp = 0\<rparr>
   \<and> truthy (REDIS_URL (env (world_stale\<lparr>env := env world_redis\<rparr>)))
   \<and> redis_new (world_stale\<lparr>env := env world_redis\<rparr>) = None
   \<and> effects_of checkRedisConnectivity (world_stale\<lparr>env := env world_redis\<rparr>)
       = [RedisNew 0 ''redis://localhost:6379'', RedisPing 0, RedisDisconnect 0]"
proof -
  have c: "healthCheckCache world_stale = Some \<lparr>result = not_configured, timestamp = 0\<rparr>"
    "healthCheckCache (world_stale\<lparr>now := 29999\<rparr>)
       = Some \<lparr>result = not_configured, timestamp = 0\<rparr>"
    "healthCheckCache (world_stale\<lparr>env := env world_redis\<rparr>)
       = Some \<lparr>result = not_configured, timestamp = 0\<rparr>"
    by (simp_all add: world_defs not_configured_def)
  have e: "30000 \<le> now world_stale - 0" "\<not> truthy (REDIS_URL (env world_stale))"
    "now (world_stale\<lparr>now := 29999\<rparr>) - 0 < 30000"
    "30000 \<le> now (world_stale\<lparr>env := env world_redis\<rparr>) - 0"
    "truthy (REDIS_URL (env (world_stale\<lparr>env := env world_redis\<rparr>)))"
    "redis_new (world_stale\<lparr>env := env world_redis\<rparr>) = None"
    "handles (world_stale\<lparr>env := env world_redis\<rparr>) = 0"
    "the (REDIS_URL (env (world_stale\<lparr>env := env world_redis\<rparr>))) = ''redis://localhost:6379''"
    by (simp_all add: world_defs truthy_def)
  from checkRedisConnectivity_memoized [OF c(1)] checkRedisConnectivity_memoized [OF c(2)]
    checkRedisConnectivity_memoized [OF c(3)] c e
  show ?thesis by simp
qed

text \<open>
  Claim C8, on the earlier version (helper.ts lines 161-229): when the ping of the probe
  fails, the \<^verbatim>\<open>catch\<close> block returns without disconnecting, and the probe connection stays
  open.
\<close>

theorem checkRedisConnectivity_v1_leaks_probe:
  "fst (checkRedisConnectivity_v1 world_refused)
     = Inr \<lparr>configured = True, connected = False, status = ''disconnected'',
             details = Some ''Redis connection failed''\<rparr>
   \<and> effects_of checkRedisConnectivity_v1 world_refused
       = [RedisNew 0 ''redis://localhost:6379'', RedisPing 0]
   \<and> connections (snd (checkRedisConnectivity_v1 world_refused)) = [0]"
  by (simp add: checkRedisConnectivity_v1_def effects_of_def fresh_def truthy_def newRedis_def
        racePing_def remember_def world_defs Let_def)

lemma checkRedisConnectivity_v1_keeps_probe:
  assumes "\<not> fresh w" "truthy (REDIS_URL (env w))" "redis_new w = None"
    "fst (racePing (handles w) 2000 (snd (newRedis (the (REDIS_URL (env w))) w))) = Inl e"
  shows "handles w \<in> set (connections (snd (checkRedisConnectivity_v1 w)))"
  using assms
  by (simp add: checkRedisConnectivity_v1_def newRedis_def racePing_def remember_def Let_def
        split: ping_outcome.splits if_splits)

text \<open>
  The later version (helper.ts lines 331-401) disconnects the probe on every path on which
  it was constructed: after a reply, after an error and after the timeout.
\<close>

lemma checkRedisConnectivity_releases_probe:
  assumes "\<not> fresh w" "truthy (REDIS_URL (env w))" "redis_new w = None"
  shows "handles w \<notin> set (connections (snd (checkRedisConnectivity w)))
       \<and> last (trace (snd (checkRedisConnectivity w))) = RedisDisconnect (handles w)"
  using assms
  by (simp add: checkRedisConnectivity_def newRedis_def racePing_def remember_def
        disconnect_def Let_def split: ping_outcome.splits)

section \<open>The long-lived connection: lemmas\<close>

lemma deliver_Ready:
  "listeners w h = Some b \<Longrightarrow>
     warnings (deliver h Ready w) = warnings w \<and> listeners (deliver h Ready w) h = Some False"
  by (simp add: deliver_def onReady_def warnings_def connection_lost_def Let_def)

lemma deliver_Error_Quiet:
  "listeners w h = Some False \<Longrightarrow>
     warnings (deliver h (ErrorEvent e) w) = Suc (warnings w)
     \<and> listeners (deliver h (ErrorEvent e) w) h = Some True"
  by (simp add: deliver_def onError_def warnings_def Let_def)

lemma deliver_Error_Warned:
  "listeners w h = Some True \<Longrightarrow> deliver h (ErrorEvent e) w = w"
  by (simp add: deliver_def onError_def)

lemma warnings_deliver_all:
  "listeners w h = Some b \<Longrightarrow>
     warnings (deliver_all h evs w)
       = warnings w + error_runs (if b then dropWhile is_error evs else evs)"
proof (induction evs arbitrary: w b)
  case Nil
  then show ?case by simp
next
  case (Cons ev evs)
  show ?case
  proof (cases ev)
    case Ready
    from Cons.prems have st: "warnings (deliver h Ready w) = warnings w"
      "listeners (deliver h Ready w) h = Some False"
      using deliver_Ready by blast+
    from Cons.IH [OF st(2)] st(1) Ready show ?thesis by simp
  next
    case (ErrorEvent e)
    show ?thesis
    proof (cases b)
      case True
      with Cons.prems have "deliver h (ErrorEvent e) w = w"
        by (simp add: deliver_Error_Warned)
      with Cons.IH [of w True] Cons.prems True ErrorEvent show ?thesis by simp
    next
      case False
      with Cons.prems have st: "warnings (deliver h (ErrorEvent e) w) = Suc (warnings w)"
        "listeners (deliver h (ErrorEvent e) w) h = Some True"
        by (simp_all add: deliver_Error_Quiet)
      from Cons.IH [OF st(2)] st(1) False ErrorEvent show ?thesis by simp
    qed
  qed
qed

lemma deliver_all_append:
  "deliver_all h (evs @ evs') w = deliver_all h evs' (deliver_all h evs w)"
  by (induction evs arbitrary: w) simp_all

lemma deliver_sel:
  "redis_ping (deliver h ev w) = redis_ping w" "env (deliver h ev w) = env w"
  "files (deliver h ev w) = files w" "generated (deliver h ev w) = generated w"
  "write_error (deliver h ev w) = write_error w" "fetch_info (deliver h ev w) = fetch_info w"
  "handles (deliver h ev w) = handles w" "connections (deliver h ev w) = connections w"
  "healthCheckCache (deliver h ev w) = healthCheckCache w"
  "provisioning (deliver h ev w) = provisioning w"
  by (simp_all add: deliver_def onReady_def onError_def provisioning_def Let_def
        split: option.splits redis_event.splits)

lemma deliver_all_sel:
  "redis_ping (deliver_all h evs w) = redis_ping w" "env (deliver_all h evs w) = env w"
  "files (deliver_all h evs w) = files w" "generated (deliver_all h evs w) = generated w"
  "write_error (deliver_all h evs w) = write_error w"
  "fetch_info (deliver_all h evs w) = fetch_info w"
  "handles (deliver_all h evs w) = handles w" "connections (deliver_all h evs w) = connections w"
  "healthCheckCache (deliver_all h evs w) = healthCheckCache w"
  "provisioning (deliver_all h evs w) = provisioning w"
  by (induction evs arbitrary: w) (simp_all add: deliver_sel)

text \<open>
  What \<^verbatim>\<open>initializeRedis\<close> leaves behind when the connection is constructed: the world in
  which the events of the ping have been delivered to fresh listeners, up to console lines
  that are not the disconnection warning, and the clock.
\<close>

lemma deliver_elapse: "deliver h ev (elapse t w) = elapse t (deliver h ev w)"
  by (simp add: deliver_def onReady_def onError_def elapse_def console_def emit_def Let_def
        split: option.splits redis_event.splits)

lemma deliver_all_elapse: "deliver_all h evs (elapse t w) = elapse t (deliver_all h evs w)"
  by (induction evs arbitrary: w) (simp_all add: deliver_elapse)

lemma warnings_elapse [simp]: "warnings (elapse t w) = warnings w"
  by (simp add: warnings_def)

lemma warnings_console [simp]:
  "warnings (console LOG s w) = warnings w" "warnings (consoleWith l s e w) = warnings w"
  "warnings (emit (RedisPing h) w) = warnings w" "warnings (emit (RedisNew h url) w) = warnings w"
  by (simp_all add: warnings_def)

lemma deliver_listening:
  "listeners w h = Some b \<Longrightarrow> \<exists>b'. listeners (deliver h ev w) h = Some b'"
  by (cases ev; cases b) (auto simp: deliver_def onReady_def onError_def Let_def)

lemma deliver_all_listening:
  "listeners w h = Some b \<Longrightarrow> \<exists>b'. listeners (deliver_all h evs w) h = Some b'"
proof (induction evs arbitrary: w b)
  case Nil
  then show ?case by simp
next
  case (Cons ev evs)
  from deliver_listening [OF Cons.prems] obtain b' where "listeners (deliver h ev w) h = Some b'"
    by blast
  from Cons.IH [OF this] show ?case by simp
qed

lemma initializeRedis_connected:
  fixes w :: "'w world"
  assumes "truthy (REDIS_URL (env w))" "redis_new w = None"
  shows "\<exists>w0 :: 'w world. listeners w0 (handles w) = Some False \<and> warnings w0 = warnings w
           \<and> listeners (snd (initializeRedis w))
               = listeners (deliver_all (handles w) (redis_events w) w0)
           \<and> warnings (snd (initializeRedis w))
               = warnings (deliver_all (handles w) (redis_events w) w0)"
proof -
  define w1 where "w1 = console LOG ''Attempting to connect to Redis.....'' w"
  define w2 where "w2 = emit (RedisNew (handles w) (the (REDIS_URL (env w))))
             (w1\<lparr>handles := Suc (handles w), connections := connections w @ [handles w]\<rparr>)"
  define w0 where "w0 = emit (RedisPing (handles w))
             (w2\<lparr>listeners := (listeners w2)((handles w) := Some False)\<rparr>)"
  have n: "newRedis (the (REDIS_URL (env w))) w1 = (Inr (handles w), w2)"
    using assms by (simp add: newRedis_def w1_def w2_def)
  have q: "listeners w0 (handles w) = Some False" "warnings w0 = warnings w"
    "redis_events w2 = redis_events w" "redis_ping w2 = redis_ping w"
    by (simp_all add: w0_def w2_def w1_def warnings_def)
  have "listeners (snd (initializeRedis w))
               = listeners (deliver_all (handles w) (redis_events w) w0)
           \<and> warnings (snd (initializeRedis w))
               = warnings (deliver_all (handles w) (redis_events w) w0)"
    using assms(1) n q(3,4)
    by (cases "redis_ping w")
       (simp_all add: initializeRedis_def ping_def Let_def w1_def [symmetric]
          w0_def [symmetric])
  with q show ?thesis by blast
qed

text \<open>
  Claim C9. Started from the state in which \<^verbatim>\<open>initializeRedis\<close> registers the listeners
  (\<^verbatim>\<open>hasLoggedDisconnection = false\<close>), every sequence of \<^verbatim>\<open>ready\<close> and \<^verbatim>\<open>error\<close> events
  adds exactly one disconnection warning per maximal run of consecutive \<^verbatim>\<open>error\<close> events.
  In steps: an \<^verbatim>\<open>error\<close> in the quiet state logs one warning and sets the flag, an
  \<^verbatim>\<open>error\<close> with the flag set changes nothing, a \<^verbatim>\<open>ready\<close> logs no warning and resets the
  flag. For \<^verbatim>\<open>initializeRedis\<close> itself: the warnings of the events during the first ping and
  of any events delivered afterwards are the runs of the whole sequence.
\<close>

theorem one_warning_per_error_run:
  assumes "listeners w h = Some False"
  shows "warnings (deliver_all h evs w) = warnings w + error_runs evs
       \<and> warnings (deliver h (ErrorEvent e) w) = Suc (warnings w)
       \<and> listeners (deliver h (ErrorEvent e) w) h = Some True
       \<and> deliver h (ErrorEvent e') (deliver h (ErrorEvent e) w) = deliver h (ErrorEvent e) w
       \<and> warnings (deliver h Ready (deliver h (ErrorEvent e) w)) = Suc (warnings w)
       \<and> listeners (deliver h Ready (deliver h (ErrorEvent e) w)) h = Some False"
  using warnings_deliver_all [OF assms, of evs] deliver_Error_Quiet [OF assms, of e]
    deliver_Error_Warned [of "deliver h (ErrorEvent e) w" h e']
    deliver_Ready [of "deliver h (ErrorEvent e) w" h True]
  by simp

theorem one_warning_per_error_run_witness:
  "listeners (world0\<lparr>listeners := (\<lambda>h. if h = 0 then Some False else None)\<rparr>) 0 = Some False
   \<and> warnings (deliver_all 0
        [Ready, ErrorEvent (Error ''ECONNRESET''), ErrorEvent (Error ''ECONNREFUSED''), Ready,
         ErrorEvent (Error ''ECONNRESET'')]
        (world0\<lparr>listeners := (\<lambda>h. if h = 0 then Some False else None)\<rparr>)) = 2"
proof -
  have h: "listeners (world0\<lparr>listeners := (\<lambda>h. if h = 0 then Some False else None)\<rparr>) 0 = Some False"
    by simp
  have "warnings (world0\<lparr>listeners := (\<lambda>h. if h = 0 then Some False else None)\<rparr>) = 0"
    by (simp add: warnings_def world0_def)
  with one_warning_per_error_run [OF h, of
      "[Ready, ErrorEvent (Error ''ECONNRESET''), ErrorEvent (Error ''ECONNREFUSED''), Ready,
         ErrorEvent (Error ''ECONNRESET'')]"] h
  show ?thesis by simp
qed

text \<open>
  The same for the connection that \<^verbatim>\<open>initializeRedis\<close> returns: the events delivered while
  the first ping is awaited and the events delivered afterwards count as one sequence.
\<close>

lemma initializeRedis_warnings:
  fixes w :: "'w world"
  assumes "truthy (REDIS_URL (env w))" "redis_new w = None"
  shows "warnings (deliver_all (handles w) evs (snd (initializeRedis w)))
           = warnings w + error_runs (redis_events w @ evs)"
proof -
  from initializeRedis_connected [OF assms] obtain w0 :: "'w world" where
    w0: "listeners w0 (handles w) = Some False" "warnings w0 = warnings w"
      "listeners (snd (initializeRedis w)) = listeners (deliver_all (handles w) (redis_events w) w0)"
      "warnings (snd (initializeRedis w)) = warnings (deliver_all (handles w) (redis_events w) w0)"
    by blast
  let ?w1 = "deliver_all (handles w) (redis_events w) w0"
  from deliver_all_listening [OF w0(1)] obtain b where b: "listeners ?w1 (handles w) = Some b"
    by blast
  with w0(3) have b': "listeners (snd (initializeRedis w)) (handles w) = Some b" by simp
  have "warnings (deliver_all (handles w) evs (snd (initializeRedis w)))
          = warnings ?w1 + error_runs (if b then dropWhile is_error evs else evs)"
    using warnings_deliver_all [OF b'] w0(4) by simp
  also have "\<dots> = warnings (deliver_all (handles w) evs ?w1)"
    using warnings_deliver_all [OF b] by simp
  also have "\<dots> = warnings (deliver_all (handles w) (redis_events w @ evs) w0)"
    by (simp add: deliver_all_append)
  also have "\<dots> = warnings w + error_runs (redis_events w @ evs)"
    using warnings_deliver_all [OF w0(1)] w0(2) by simp
  finally show ?thesis .
qed

section \<open>initializeRedis: what it returns\<close>

lemma initializeRedis_returns:
  "\<exists>client. fst (initializeRedis w) = Inr client"
  "\<exists>client. fst (initializeRedis_helper w) = Inr client"
  by (simp_all add: initializeRedis_def initializeRedis_helper_def ping_def newRedis_def Let_def
        split: option.splits ping_outcome.splits)

lemma initializeRedis_unconfigured:
  assumes "\<not> truthy (REDIS_URL (env w))"
  shows "fst (initializeRedis w) = Inr None"
    and "effects_of initializeRedis w
           = [Console LOG ''No REDIS_URL provided, proceeding without Redis cache'']"
    and "initializeRedis_helper w = initializeRedis w"
  using assms by (simp_all add: initializeRedis_def initializeRedis_helper_def effects_of_def)

lemma initializeRedis_construction_fails:
  assumes "truthy (REDIS_URL (env w))" "redis_new w = Some e"
  shows "fst (initializeRedis w) = Inr None" and "fst (initializeRedis_helper w) = Inr None"
  using assms
  by (simp_all add: initializeRedis_def initializeRedis_helper_def newRedis_def Let_def)

lemma initializeRedis_helper_ping_fails:
  assumes "truthy (REDIS_URL (env w))" "redis_new w = None" "redis_ping w = PingRejects t e"
  shows "fst (initializeRedis_helper w) = Inr None"
  using assms
  by (simp add: initializeRedis_helper_def newRedis_def ping_def Let_def)

lemma initializeRedis_ping_fails:
  assumes "truthy (REDIS_URL (env w))" "redis_new w = None" "redis_ping w = PingRejects t e"
  shows "fst (initializeRedis w) = Inr (Some (handles w))"
  using assms
  by (simp add: initializeRedis_def newRedis_def ping_def Let_def)

text \<open>
  Claim C3, on \<^verbatim>\<open>src/config/redis.ts\<close>: the server refuses the connection, the first ping
  is rejected, and the \<^verbatim>\<open>catch\<close> block returns the client it has constructed, not
  \<^verbatim>\<open>undefined\<close>; the earlier version in helper.ts returns \<^verbatim>\<open>undefined\<close> on the same input.
  Neither raises.
\<close>

theorem initializeRedis_returns_client_after_failed_ping:
  "truthy (REDIS_URL (env world_refused))
   \<and> redis_ping world_refused = PingRejects 5 (Error ''connect ECONNREFUSED 127.0.0.1:6379'')
   \<and> fst (initializeRedis world_refused) = Inr (Some 0)
   \<and> connections (snd (initializeRedis world_refused)) = [0]
   \<and> fst (initializeRedis_helper world_refused) = Inr None"
  by (simp add: initializeRedis_def initializeRedis_helper_def newRedis_def ping_def truthy_def
        deliver_def onError_def world_defs Let_def)

section \<open>initializeArweave: lemmas\<close>

lemma checkArLocalRunning_result:
  "fst (checkArLocalRunning port w) = Inr (local_reachable (fetch_info w))"
  by (simp add: checkArLocalRunning_def fetch_def local_reachable_def Let_def
        split: fetch_outcome.splits)

lemma checkArLocalRunning_v1_result:
  "fst (checkArLocalRunning_v1 port w)
     = Inr (case fetch_info w of Responds t ok \<Rightarrow> ok | Rejects t e \<Rightarrow> False)"
  by (simp add: checkArLocalRunning_v1_def fetch_def Let_def split: fetch_outcome.splits)

lemma provisioning_sel [simp]:
  "provisioning (console l s w) = provisioning w"
  "provisioning (consoleWith l s e w) = provisioning w"
  "provisioning (elapse t w) = provisioning w"
  "provisioning (emit (RedisNew h url) w) = provisioning w"
  "provisioning (emit (RedisPing h) w) = provisioning w"
  "provisioning (emit (RedisDisconnect h) w) = provisioning w"
  "provisioning (emit (Fetch url) w) = provisioning w"
  "provisioning (emit (ReadFile path) w) = provisioning w"
  "provisioning (emit WalletsGenerate w) = provisioning w @ [WalletsGenerate]"
  "provisioning (emit (WriteFile path text) w) = provisioning w @ [WriteFile path text]"
  by (simp_all add: provisioning_def)

lemma provisioning_upd [simp]:
  "provisioning (w\<lparr>handles := n\<rparr>) = provisioning w"
  "provisioning (w\<lparr>connections := cs\<rparr>) = provisioning w"
  "provisioning (w\<lparr>listeners := ls\<rparr>) = provisioning w"
  "provisioning (w\<lparr>files := fs\<rparr>) = provisioning w"
  "provisioning (w\<lparr>healthCheckCache := c\<rparr>) = provisioning w"
  by (simp_all add: provisioning_def)

lemma checkArLocalRunning_frame:
  "files (snd (checkArLocalRunning port w)) = files w"
  "generated (snd (checkArLocalRunning port w)) = generated w"
  "write_error (snd (checkArLocalRunning port w)) = write_error w"
  "env (snd (checkArLocalRunning port w)) = env w"
  "provisioning (snd (checkArLocalRunning port w)) = provisioning w"
  by (simp_all add: checkArLocalRunning_def fetch_def Let_def split: fetch_outcome.splits)

lemma initializeRedis_frame:
  "files (snd (initializeRedis w)) = files w"
  "generated (snd (initializeRedis w)) = generated w"
  "write_error (snd (initializeRedis w)) = write_error w"
  "env (snd (initializeRedis w)) = env w"
  "fetch_info (snd (initializeRedis w)) = fetch_info w"
  "provisioning (snd (initializeRedis w)) = provisioning w"
  by (simp_all add: initializeRedis_def ping_def newRedis_def Let_def deliver_all_sel
        split: option.splits ping_outcome.splits)

lemma createWarp_frame:
  "files (snd (createWarp c w)) = files w"
  "generated (snd (createWarp c w)) = generated w"
  "write_error (snd (createWarp c w)) = write_error w"
  "env (snd (createWarp c w)) = env w"
  "provisioning (snd (createWarp c w)) = provisioning w"
  using checkArLocalRunning_result [of ARLOCAL_PORT w] checkArLocalRunning_frame [of ARLOCAL_PORT w]
  by (cases "checkArLocalRunning ARLOCAL_PORT w"; simp add: createWarp_def Let_def)+

lemma createWarp_development:
  assumes "\<not> isProduction (env w)"
  shows "fst (createWarp c w)
       = Inr (forNetwork (if local_reachable (fetch_info w) then Local ARLOCAL_PORT else Testnet) c)"
proof -
  obtain w1 where "checkArLocalRunning ARLOCAL_PORT w = (Inr (local_reachable (fetch_info w)), w1)"
    using checkArLocalRunning_result [of ARLOCAL_PORT w] by (metis prod.collapse)
  with assms show ?thesis by (simp add: createWarp_def Let_def)
qed

lemma createWarp_production:
  assumes "isProduction (env w)"
  shows "fst (createWarp c w) = Inr (forNetwork Mainnet c)"
  using assms by (simp add: createWarp_def)

lemma readFile_result:
  "fst (readFile path w) =
     (case files w path of
        None \<Rightarrow> Inl (Error (''ENOENT: no such file or directory, open '' @ [CHR 0x27] @ path @ [CHR 0x27]))
      | Some text \<Rightarrow> Inr text)"
  "snd (readFile path w) = emit (ReadFile path) w"
  by (simp_all add: readFile_def split: option.splits)

lemma developmentWalletTry_result:
  "fst (developmentWalletTry L w) =
     (case fst (readFile devWalletPath w) of
        Inl e \<Rightarrow> Inl e
      | Inr text \<Rightarrow>
          (case JSON_parse L text of
             Inl e \<Rightarrow> Inl e
           | Inr jwk \<Rightarrow> (case jwkToAddress L jwk of Inl e \<Rightarrow> Inl e | Inr a \<Rightarrow> Inr jwk)))"
  by (cases "readFile devWalletPath w")
     (simp add: developmentWalletTry_def Let_def split: sum.splits)

lemma developmentWalletTry_frame:
  "files (snd (developmentWalletTry L w)) = files w"
  "generated (snd (developmentWalletTry L w)) = generated w"
  "write_error (snd (developmentWalletTry L w)) = write_error w"
  "env (snd (developmentWalletTry L w)) = env w"
  "provisioning (snd (developmentWalletTry L w)) = provisioning w"
  using readFile_result(2) [of devWalletPath w]
  by (cases "readFile devWalletPath w";
      simp add: developmentWalletTry_def Let_def split: sum.splits)+

lemma developmentWallet_result:
  "fst (developmentWallet L w) =
     (case fst (developmentWalletTry L w) of
        Inr jwk \<Rightarrow> Inr jwk
      | Inl error \<Rightarrow>
          (case generated w of
             Inl e \<Rightarrow> Inl e
           | Inr jwk \<Rightarrow>
               (case jwkToAddress L jwk of
                  Inl e \<Rightarrow> Inl e
                | Inr a \<Rightarrow> (case write_error w of Some e \<Rightarrow> Inl e | None \<Rightarrow> Inr jwk))))"
  using developmentWalletTry_frame [of L w]
  by (cases "developmentWalletTry L w")
     (simp add: developmentWallet_def generate_def writeFile_def Let_def
        split: sum.splits option.splits)

lemma developmentWallet_frame:
  assumes "files w' = files w" "generated w' = generated w" "write_error w' = write_error w"
  shows "fst (developmentWallet L w') = fst (developmentWallet L w)"
  by (simp only: developmentWallet_result developmentWalletTry_result readFile_result assms)

lemma developmentWallet_loads:
  assumes "fst (developmentWalletTry L w) = Inr jwk"
  shows "files (snd (developmentWallet L w)) = files w"
    and "provisioning (snd (developmentWallet L w)) = provisioning w"
  using assms developmentWalletTry_frame [of L w]
  by (cases "developmentWalletTry L w"; simp add: developmentWallet_def)+

lemma developmentWallet_provisions:
  assumes "fst (developmentWalletTry L w) = Inl error" "generated w = Inr k"
    "jwkToAddress L k = Inr a" "write_error w = None"
  shows "files (snd (developmentWallet L w)) = (files w)(devWalletPath := Some (JSON_stringify L k))"
    and "provisioning (snd (developmentWallet L w))
           = provisioning w @ [WalletsGenerate, WriteFile devWalletPath (JSON_stringify L k)]"
  using assms developmentWalletTry_frame [of L w]
  by (cases "developmentWalletTry L w";
      simp add: developmentWallet_def generate_def writeFile_def Let_def)+

text \<open>
  The whole function in a development mode: its errors are those of the wallet branch, and
  its handle carries the network that the probe selects.
\<close>

lemma initializeArweave_development:
  assumes "\<not> isProduction (env w)"
  shows "\<exists>client w2.
           fst (initializeRedis w) = Inr client
         \<and> files w2 = files w \<and> generated w2 = generated w \<and> write_error w2 = write_error w
         \<and> provisioning w2 = provisioning w
         \<and> fst (initializeArweave L w) =
             (case fst (developmentWallet L w) of
                Inl e \<Rightarrow> Inl e
              | Inr jwk \<Rightarrow>
                  Inr \<lparr>warp = \<lparr>network = (if local_reachable (fetch_info w)
                                            then Local ARLOCAL_PORT else Testnet),
                                 kvStorage = client, plugins = [''DeployPlugin'']\<rparr>,
                        wallet = jwk, redis = client\<rparr>)
         \<and> files (snd (initializeArweave L w)) = files (snd (developmentWallet L w2))
         \<and> provisioning (snd (initializeArweave L w)) = provisioning (snd (developmentWallet L w2))"
proof -
  obtain client w1 where r: "initializeRedis w = (Inr client, w1)"
    using initializeRedis_returns(1) [of w] by (metis prod.collapse)
  have f1: "files w1 = files w" "generated w1 = generated w" "write_error w1 = write_error w"
    "env w1 = env w" "fetch_info w1 = fetch_info w" "provisioning w1 = provisioning w"
    using initializeRedis_frame [of w] r by simp_all
  obtain rw w2 where c: "createWarp client w1 = (rw, w2)" by (cases "createWarp client w1")
  have rw: "rw = Inr (forNetwork (if local_reachable (fetch_info w) then Local ARLOCAL_PORT
                                   else Testnet) client)"
    using createWarp_development [of w1 client] assms f1 c by simp
  have f2: "files w2 = files w" "generated w2 = generated w" "write_error w2 = write_error w"
    "provisioning w2 = provisioning w"
    using createWarp_frame [of client w1] c f1 by simp_all
  have d: "fst (developmentWallet L w2) = fst (developmentWallet L w)"
    using f2(1-3) by (rule developmentWallet_frame)
  obtain rd w3 where dw: "developmentWallet L w2 = (rd, w3)" by (cases "developmentWallet L w2")
  with d have rd: "fst (developmentWallet L w) = rd" by simp
  have "fst (initializeArweave L w) =
             (case fst (developmentWallet L w) of
                Inl e \<Rightarrow> Inl e
              | Inr jwk \<Rightarrow>
                  Inr \<lparr>warp = \<lparr>network = (if local_reachable (fetch_info w)
                                            then Local ARLOCAL_PORT else Testnet),
                                 kvStorage = client, plugins = [''DeployPlugin'']\<rparr>,
                        wallet = jwk, redis = client\<rparr>)
         \<and> files (snd (initializeArweave L w)) = files (snd (developmentWallet L w2))
         \<and> provisioning (snd (initializeArweave L w)) = provisioning (snd (developmentWallet L w2))"
    using assms r c rw dw
    by (cases rd) (simp_all add: initializeArweave_def rd forNetwork_def use_def)
  with r f2 show ?thesis by auto
qed

text \<open>
  Claim C5. In every mode other than production, the probe never raises: a rejected
  request, a response that is not \<^verbatim>\<open>ok\<close> and the timeout of 1000 ms all make it report
  \<^verbatim>\<open>false\<close> (the earlier version, which sets no timer, reports \<^verbatim>\<open>false\<close> on a rejected
  request and on a response that is not \<^verbatim>\<open>ok\<close>). The network is the local one when the
  probe reports \<^verbatim>\<open>true\<close> and the testnet otherwise, and \<^verbatim>\<open>initializeArweave\<close> fails only
  where its wallet branch fails, whatever the probe reports.
\<close>

theorem development_network_follows_probe:
  assumes "\<not> isProduction (env w)"
  shows "fst (checkArLocalRunning ARLOCAL_PORT w) = Inr (local_reachable (fetch_info w))
       \<and> fst (checkArLocalRunning_v1 ARLOCAL_PORT w)
           = Inr (case fetch_info w of Responds t ok \<Rightarrow> ok | Rejects t e \<Rightarrow> False)
       \<and> fst (createWarp c w)
           = Inr (forNetwork (if local_reachable (fetch_info w) then Local ARLOCAL_PORT
                              else Testnet) c)
       \<and> (\<exists>client.
             fst (initializeRedis w) = Inr client \<and>
             fst (initializeArweave L w) =
               (case fst (developmentWallet L w) of
                  Inl e \<Rightarrow> Inl e
                | Inr jwk \<Rightarrow>
                    Inr \<lparr>warp = \<lparr>network = (if local_reachable (fetch_info w)
                                              then Local ARLOCAL_PORT else Testnet),
                                   kvStorage = client, plugins = [''DeployPlugin'']\<rparr>,
                          wallet = jwk, redis = client\<rparr>))
       \<and> fst (developmentWallet L (w\<lparr>fetch_info := f\<rparr>)) = fst (developmentWallet L w)"
proof -
  have "fst (developmentWallet L (w\<lparr>fetch_info := f\<rparr>)) = fst (developmentWallet L w)"
    by (rule developmentWallet_frame) simp_all
  with checkArLocalRunning_result [of ARLOCAL_PORT w]
    checkArLocalRunning_v1_result [of ARLOCAL_PORT w] createWarp_development [OF assms, of c]
    initializeArweave_development [OF assms, of L]
  show ?thesis by blast
qed

theorem development_network_follows_probe_witness:
  "\<not> isProduction (env world0)
   \<and> fetch_info world0 = Rejects 2 (Error ''fetch failed'')
   \<and> fst (createWarp None world0) = Inr (forNetwork Testnet None)
   \<and> fst (initializeArweave lib0 world0)
       = Inr \<lparr>warp = \<lparr>network = Testnet, kvStorage = None, plugins = [''DeployPlugin'']\<rparr>,
               wallet = ''jwk-1'', redis = None\<rparr>
   \<and> \<not> isProduction (env (world0\<lparr>fetch_info := Responds 20 True\<rparr>))
   \<and> fst (initializeArweave lib0 (world0\<lparr>fetch_info := Responds 20 True\<rparr>))
       = Inr \<lparr>warp = \<lparr>network = Local 8080, kvStorage = None, plugins = [''DeployPlugin'']\<rparr>,
               wallet = ''jwk-1'', redis = None\<rparr>"
proof -
  let ?w = "world0\<lparr>fetch_info := Responds 20 True\<rparr>"
  have dev: "\<not> isProduction (env world0)" "\<not> isProduction (env ?w)"
    by (simp_all add: isProduction_def world0_def)
  have wal: "fst (developmentWallet lib0 world0) = Inr ''jwk-1''"
    "fst (developmentWallet lib0 ?w) = Inr ''jwk-1''"
    by (simp_all add: developmentWallet_result developmentWalletTry_result readFile_result
          world0_def lib0_def)
  have f: "fetch_info world0 = Rejects 2 (Error ''fetch failed'')"
    "fetch_info ?w = Responds 20 True"
    by (simp_all add: world0_def)
  have r: "fst (initializeRedis world0) = Inr None" "fst (initializeRedis ?w) = Inr None"
    by (simp_all add: initializeRedis_def truthy_def world0_def)
  from development_network_follows_probe [OF dev(1), of None lib0]
    development_network_follows_probe [OF dev(2), of None lib0]
  show ?thesis
    by (simp add: wal f r dev local_reachable_def ARLOCAL_PORT_def)
qed

text \<open>
  Claim C4. In every mode other than production, when \<^verbatim>\<open>./dev-wallet.json\<close> does not exist
  (and the key generator, the address derivation and the write succeed, and the JSON text
  of the generated keypair parses back to it), \<^verbatim>\<open>initializeArweave\<close> returns the generated
  keypair and writes it to \<^verbatim>\<open>./dev-wallet.json\<close>. Every later run in such a mode on the
  same files, whatever else has changed, returns that same keypair, generates nothing,
  writes nothing and leaves the files as they are, so that re-loading is idempotent.
\<close>

theorem development_wallet_round_trip:
  fixes w w2 :: "'w world"
  assumes dev: "\<not> isProduction (env w)" and nofile: "files w devWalletPath = None"
    and gen: "generated w = Inr k" and addr: "jwkToAddress L k = Inr a"
    and wr: "write_error w = None"
    and rt: "JSON_parse L (JSON_stringify L k) = Inr k"
    and dev2: "\<not> isProduction (env w2)"
    and same: "files w2 = files (snd (initializeArweave L w))"
  shows "(\<exists>cfg. fst (initializeArweave L w) = Inr cfg \<and> wallet cfg = k)
       \<and> files (snd (initializeArweave L w))
           = (files w)(devWalletPath := Some (JSON_stringify L k))
       \<and> provisioning (snd (initializeArweave L w))
           = provisioning w @ [WalletsGenerate, WriteFile devWalletPath (JSON_stringify L k)]
       \<and> (\<exists>cfg2. fst (initializeArweave L w2) = Inr cfg2 \<and> wallet cfg2 = k)
       \<and> files (snd (initializeArweave L w2)) = files w2
       \<and> provisioning (snd (initializeArweave L w2)) = provisioning w2"
proof -
  from initializeArweave_development [OF dev, of L] obtain client w' where
    1: "files w' = files w" "generated w' = generated w" "write_error w' = write_error w"
      "provisioning w' = provisioning w"
      "fst (initializeArweave L w) =
             (case fst (developmentWallet L w) of
                Inl e \<Rightarrow> Inl e
              | Inr jwk \<Rightarrow>
                  Inr \<lparr>warp = \<lparr>network = (if local_reachable (fetch_info w)
                                            then Local ARLOCAL_PORT else Testnet),
                                 kvStorage = client, plugins = [''DeployPlugin'']\<rparr>,
                        wallet = jwk, redis = client\<rparr>)"
      "files (snd (initializeArweave L w)) = files (snd (developmentWallet L w'))"
      "provisioning (snd (initializeArweave L w)) = provisioning (snd (developmentWallet L w'))"
    by blast
  have load1: "\<exists>error. fst (developmentWalletTry L w') = Inl error"
    using nofile 1(1) by (simp add: developmentWalletTry_result readFile_result)
  then obtain error where load1': "fst (developmentWalletTry L w') = Inl error" by blast
  have load0: "\<exists>error. fst (developmentWalletTry L w) = Inl error"
    using nofile by (simp add: developmentWalletTry_result readFile_result)
  have first: "fst (developmentWallet L w) = Inr k"
    using load0 gen addr wr by (auto simp: developmentWallet_result)
  have a: "\<exists>cfg. fst (initializeArweave L w) = Inr cfg \<and> wallet cfg = k"
    using 1(5) first by simp
  have b: "files (snd (initializeArweave L w))
           = (files w)(devWalletPath := Some (JSON_stringify L k))"
    and c: "provisioning (snd (initializeArweave L w))
           = provisioning w @ [WalletsGenerate, WriteFile devWalletPath (JSON_stringify L k)]"
    using developmentWallet_provisions [OF load1', of k a] gen addr wr 1 by simp_all
  from initializeArweave_development [OF dev2, of L] obtain client2 w2' where
    2: "files w2' = files w2" "provisioning w2' = provisioning w2"
      "fst (initializeArweave L w2) =
             (case fst (developmentWallet L w2) of
                Inl e \<Rightarrow> Inl e
              | Inr jwk \<Rightarrow>
                  Inr \<lparr>warp = \<lparr>network = (if local_reachable (fetch_info w2)
                                            then Local ARLOCAL_PORT else Testnet),
                                 kvStorage = client2, plugins = [''DeployPlugin'']\<rparr>,
                        wallet = jwk, redis = client2\<rparr>)"
      "files (snd (initializeArweave L w2)) = files (snd (developmentWallet L w2'))"
      "provisioning (snd (initializeArweave L w2)) = provisioning (snd (developmentWallet L w2'))"
    by blast
  have stored: "files w2 devWalletPath = Some (JSON_stringify L k)"
    using same b by simp
  have load2: "fst (developmentWalletTry L w2) = Inr k"
    using stored rt addr by (simp add: developmentWalletTry_result readFile_result)
  have load2': "fst (developmentWalletTry L w2') = Inr k"
    using stored rt addr 2(1) by (simp add: developmentWalletTry_result readFile_result)
  have second: "fst (developmentWallet L w2) = Inr k"
    using load2 by (simp add: developmentWallet_result)
  have d: "\<exists>cfg2. fst (initializeArweave L w2) = Inr cfg2 \<and> wallet cfg2 = k"
    using 2(3) second by simp
  have e: "files (snd (initializeArweave L w2)) = files w2"
    and f: "provisioning (snd (initializeArweave L w2)) = provisioning w2"
    using developmentWallet_loads [OF load2'] 2 by simp_all
  from a b c d e f show ?thesis by blast
qed

theorem development_wallet_round_trip_witness:
  "\<not> isProduction (env world0) \<and> files world0 devWalletPath = None
   \<and> generated world0 = Inr ''jwk-1''
   \<and> jwkToAddress lib0 ''jwk-1'' = Inr ''address-of-jwk-1'' \<and> write_error world0 = None
   \<and> JSON_parse lib0 (JSON_stringify lib0 ''jwk-1'') = Inr ''jwk-1''
   \<and> map_sum id wallet (fst (initializeArweave lib0 world0)) = Inr ''jwk-1''
   \<and> files (snd (initializeArweave lib0 world0)) devWalletPath = Some ''jwk-1''
   \<and> map_sum id wallet
        (fst (initializeArweave lib0
               (world0\<lparr>files := files (snd (initializeArweave lib0 world0)),
                       generated := Inr ''jwk-2''\<rparr>))) = Inr ''jwk-1''"
proof -
  let ?w2 = "world0\<lparr>files := files (snd (initializeArweave lib0 world0)),
                       generated := Inr ''jwk-2''\<rparr>"
  have h: "\<not> isProduction (env world0)" "files world0 devWalletPath = None"
    "generated world0 = Inr ''jwk-1''" "jwkToAddress lib0 ''jwk-1'' = Inr ''address-of-jwk-1''"
    "write_error world0 = None" "JSON_parse lib0 (JSON_stringify lib0 ''jwk-1'') = Inr ''jwk-1''"
    "\<not> isProduction (env ?w2)" "files ?w2 = files (snd (initializeArweave lib0 world0))"
    by (simp_all add: isProduction_def world0_def lib0_def)
  from development_wallet_round_trip [OF h] h(1-6) show ?thesis
    by (auto simp: lib0_def)
qed

section \<open>initializeArweave in production: lemmas\<close>

lemma startsWith_append: "startsWith (x @ ys) x"
  by (induction x) simp_all

lemma str_includes_here: "startsWith s x \<Longrightarrow> str_includes s x"
  by (cases s; cases x) (auto split: if_splits)

lemma str_includes_later: "str_includes s x \<Longrightarrow> str_includes (p @ s) x"
  by (induction p) simp_all

lemma str_includes_inside: "str_includes (p @ x @ q) x"
  by (simp add: str_includes_later str_includes_here startsWith_append)

lemma mismatch_message_reports:
  "str_includes (mismatch_message expected derived) expected"
  "str_includes (mismatch_message expected derived) derived"
proof -
  have "mismatch_message expected derived
      = (''Wallet address mismatch. Expected '' @ [CHR 0x27]) @ expected
        @ ([CHR 0x27] @ '' but loaded wallet has address '' @ [CHR 0x27] @ derived @ [CHR 0x27]
           @ ''. Please verify the wallet file and expected address are correct.'')"
    by (simp add: mismatch_message_def)
  then show "str_includes (mismatch_message expected derived) expected"
    by (simp only: str_includes_inside)
  have "mismatch_message expected derived
      = (''Wallet address mismatch. Expected '' @ [CHR 0x27] @ expected @ [CHR 0x27]
           @ '' but loaded wallet has address '' @ [CHR 0x27]) @ derived
        @ ([CHR 0x27] @ ''. Please verify the wallet file and expected address are correct.'')"
    by (simp add: mismatch_message_def)
  then show "str_includes (mismatch_message expected derived) derived"
    by (simp only: str_includes_inside)
qed

lemma validateWalletAddress_mismatch:
  assumes "jwkToAddress L jwk = Inr derived" "derived \<noteq> expected"
  shows "fst (validateWalletAddress L jwk expected source w)
           = Inl (Error (mismatch_message expected derived))"
    and "trace (snd (validateWalletAddress L jwk expected source w))
           = trace w @ [Console ERROR (cross_mark @ '' Wallet address mismatch detected!''),
                        Console ERROR (''Expected: '' @ expected),
                        Console ERROR (''Loaded:   '' @ derived),
                        Console ERROR (''Source:   '' @ source)]"
  using assms by (simp_all add: validateWalletAddress_def Let_def)

lemma validateWalletAddress_match:
  assumes "jwkToAddress L jwk = Inr expected"
  shows "validateWalletAddress L jwk expected source w = (Inr expected, w)"
  using assms by (simp add: validateWalletAddress_def)

lemma productionWalletTry_mismatch:
  assumes "files w path = Some text" "JSON_parse L text = Inr jwk"
    "jwkToAddress L jwk = Inr derived" "derived \<noteq> expected"
  shows "fst (productionWalletTry L path expected w)
           = Inl (Error (mismatch_message expected derived))"
    and "trace (snd (productionWalletTry L path expected w))
           = trace w @ [ReadFile path,
                        Console ERROR (cross_mark @ '' Wallet address mismatch detected!''),
                        Console ERROR (''Expected: '' @ expected),
                        Console ERROR (''Loaded:   '' @ derived),
                        Console ERROR (''Source:   '' @ path)]"
  using assms validateWalletAddress_mismatch [OF assms(3,4), of path "emit (ReadFile path) w"]
  by (cases "validateWalletAddress L jwk expected path (emit (ReadFile path) w)";
      simp add: productionWalletTry_def readFile_def)+

lemma productionWallet_result:
  "fst (productionWallet L w) = Inl missing_configuration
     \<or> fst (productionWallet L w) = Inl load_failure
     \<or> (\<exists>jwk. fst (productionWallet L w) = Inr jwk)"
  by (cases "productionWalletTry L (the (ARWEAVE_WALLET_PATH (env w)))
                (the (SERVICE_WALLET_ADDRESS (env w))) w")
     (auto simp: productionWallet_def split: sum.splits)

lemma distinct_errors:
  "missing_configuration \<noteq> load_failure"
  "missing_configuration \<noteq> Error (mismatch_message expected derived)"
  by (simp_all add: missing_configuration_def load_failure_def mismatch_message_def)

lemma productionWallet_missing:
  "(fst (productionWallet L w) = Inl missing_configuration)
     = (\<not> truthy (SERVICE_WALLET_ADDRESS (env w)) \<or> \<not> truthy (ARWEAVE_WALLET_PATH (env w)))"
  using distinct_errors(1)
  by (cases "productionWalletTry L (the (ARWEAVE_WALLET_PATH (env w)))
                (the (SERVICE_WALLET_ADDRESS (env w))) w")
     (auto simp: productionWallet_def split: sum.splits)

lemma initializeArweave_production:
  assumes "isProduction (env w)"
  shows "\<exists>client w2.
           fst (initializeRedis w) = Inr client
         \<and> files w2 = files w \<and> env w2 = env w
         \<and> fst (initializeArweave L w) =
             (case fst (productionWallet L w2) of
                Inl e \<Rightarrow> Inl e
              | Inr jwk \<Rightarrow>
                  Inr \<lparr>warp = \<lparr>network = Mainnet, kvStorage = client,
                                 plugins = [''DeployPlugin'']\<rparr>,
                        wallet = jwk, redis = client\<rparr>)
         \<and> (\<forall>e. fst (productionWallet L w2) = Inl e \<longrightarrow>
                snd (initializeArweave L w) = snd (productionWallet L w2))"
proof -
  obtain client w1 where r: "initializeRedis w = (Inr client, w1)"
    using initializeRedis_returns(1) [of w] by (metis prod.collapse)
  have f1: "files w1 = files w" "env w1 = env w"
    using initializeRedis_frame [of w] r by simp_all
  obtain rw w2 where c: "createWarp client w1 = (rw, w2)" by (cases "createWarp client w1")
  have rw: "rw = Inr (forNetwork Mainnet client)"
    using createWarp_production [of w1 client] assms f1 c by simp
  have f2: "files w2 = files w" "env w2 = env w"
    using createWarp_frame [of client w1] c f1 by simp_all
  obtain rp w3 where pw: "productionWallet L w2 = (rp, w3)" by (cases "productionWallet L w2")
  have "fst (initializeArweave L w) =
             (case fst (productionWallet L w2) of
                Inl e \<Rightarrow> Inl e
              | Inr jwk \<Rightarrow>
                  Inr \<lparr>warp = \<lparr>network = Mainnet, kvStorage = client,
                                 plugins = [''DeployPlugin'']\<rparr>,
                        wallet = jwk, redis = client\<rparr>)
         \<and> (\<forall>e. fst (productionWallet L w2) = Inl e \<longrightarrow>
                snd (initializeArweave L w) = snd (productionWallet L w2))"
    using assms r c rw pw
    by (cases rp) (simp_all add: initializeArweave_def forNetwork_def use_def)
  with r f2 show ?thesis by auto
qed

text \<open>
  Claim C2. In production \<^verbatim>\<open>initializeArweave\<close> fails with the configuration error exactly
  when \<^verbatim>\<open>SERVICE_WALLET_ADDRESS\<close> or \<^verbatim>\<open>ARWEAVE_WALLET_PATH\<close> is absent (undefined or
  empty); in particular it does so when either is undefined, and then no handle is
  returned. That error differs from the error raised when the wallet cannot be loaded or
  does not match, and from the mismatch error of \<^verbatim>\<open>validateWalletAddress\<close>, whatever the
  addresses.
\<close>

theorem production_missing_configuration:
  assumes "isProduction (env w)"
  shows "((fst (initializeArweave L w) = Inl missing_configuration)
            = (\<not> truthy (SERVICE_WALLET_ADDRESS (env w)) \<or> \<not> truthy (ARWEAVE_WALLET_PATH (env w))))
       \<and> (SERVICE_WALLET_ADDRESS (env w) = None \<or> ARWEAVE_WALLET_PATH (env w) = None \<longrightarrow>
            fst (initializeArweave L w) = Inl missing_configuration)
       \<and> missing_configuration \<noteq> load_failure
       \<and> missing_configuration \<noteq> Error (mismatch_message expected derived)"
proof -
  from initializeArweave_production [OF assms, of L] obtain client w2 where
    1: "env w2 = env w"
      "fst (initializeArweave L w) =
             (case fst (productionWallet L w2) of
                Inl e \<Rightarrow> Inl e
              | Inr jwk \<Rightarrow>
                  Inr \<lparr>warp = \<lparr>network = Mainnet, kvStorage = client,
                                 plugins = [''DeployPlugin'']\<rparr>,
                        wallet = jwk, redis = client\<rparr>)"
    by blast
  have "(fst (initializeArweave L w) = Inl missing_configuration)
          = (fst (productionWallet L w2) = Inl missing_configuration)"
    using 1(2) by (cases "fst (productionWallet L w2)") simp_all
  then have iff: "(fst (initializeArweave L w) = Inl missing_configuration)
            = (\<not> truthy (SERVICE_WALLET_ADDRESS (env w)) \<or> \<not> truthy (ARWEAVE_WALLET_PATH (env w)))"
    using productionWallet_missing [of L w2] 1(1) by simp
  then have "SERVICE_WALLET_ADDRESS (env w) = None \<or> ARWEAVE_WALLET_PATH (env w) = None \<longrightarrow>
            fst (initializeArweave L w) = Inl missing_configuration"
    by (auto simp: truthy_def)
  with iff distinct_errors show ?thesis by blast
qed

theorem production_missing_configuration_witness:
  "isProduction (env world_unset) \<and> SERVICE_WALLET_ADDRESS (env world_unset) = None
   \<and> fst (initializeArweave lib0 world_unset) = Inl missing_configuration
   \<and> missing_configuration \<noteq> load_failure"
proof -
  have h: "isProduction (env world_unset)" "SERVICE_WALLET_ADDRESS (env world_unset) = None"
    by (simp_all add: isProduction_def trim_def whiteSpace_def stripStart.simps world_defs)
  from production_missing_configuration [OF h(1), of lib0] h show ?thesis by simp
qed

text \<open>
  Claim C1, as stated, fails: in production, with a keypair file whose key derives another
  address than the expected one, the error that \<^verbatim>\<open>initializeArweave\<close> raises carries a fixed
  message that names neither address nor the path of the file.
\<close>

theorem production_mismatch_error_counterexample:
  "isProduction (env world_mismatch)
   \<and> SERVICE_WALLET_ADDRESS (env world_mismatch) = Some ''address-of-jwk-A''
   \<and> ARWEAVE_WALLET_PATH (env world_mismatch) = Some ''/run/secrets/wallet.json''
   \<and> files world_mismatch ''/run/secrets/wallet.json'' = Some ''jwk-B''
   \<and> JSON_parse lib0 ''jwk-B'' = Inr ''jwk-B''
   \<and> jwkToAddress lib0 ''jwk-B'' = Inr ''address-of-jwk-B''
   \<and> fst (initializeArweave lib0 world_mismatch) = Inl load_failure
   \<and> \<not> str_includes (message load_failure) ''address-of-jwk-A''
   \<and> \<not> str_includes (message load_failure) ''address-of-jwk-B''
   \<and> \<not> str_includes (message load_failure) ''/run/secrets/wallet.json''"
proof -
  have "fst (initializeArweave lib0 world_mismatch) = Inl load_failure"
    by (simp add: initializeArweave_def initializeRedis_def createWarp_def productionWallet_def
          productionWalletTry_def readFile_def validateWalletAddress_def isProduction_def
          trim_def whiteSpace_def stripStart.simps truthy_def world_defs lib0_def Let_def)
  moreover have "\<not> str_includes (message load_failure) ''address-of-jwk-A''"
    "\<not> str_includes (message load_failure) ''address-of-jwk-B''"
    "\<not> str_includes (message load_failure) ''/run/secrets/wallet.json''"
    by (simp_all add: load_failure_def)
  moreover have "isProduction (env world_mismatch)"
    by (simp add: isProduction_def trim_def whiteSpace_def stripStart.simps world_defs)
  ultimately show ?thesis by (simp add: world_defs lib0_def)
qed

text \<open>
  Claim C1, amended. In production, for every keypair that is read from the configured
  path, parses, and derives an address other than the expected one, \<^verbatim>\<open>initializeArweave\<close>
  fails with an error and returns no handle. Before it fails it reports the mismatch on
  the error console: the expected address, the derived address and the path of the file,
  each on a line of its own, and then the mismatch error of \<^verbatim>\<open>validateWalletAddress\<close>,
  whose message names the expected and the derived address.
\<close>

theorem production_mismatch_fails:
  assumes "isProduction (env w)"
    and "SERVICE_WALLET_ADDRESS (env w) = Some expected" and "expected \<noteq> []"
    and "ARWEAVE_WALLET_PATH (env w) = Some path" and "path \<noteq> []"
    and "files w path = Some text" and "JSON_parse L text = Inr jwk"
    and "jwkToAddress L jwk = Inr derived" and "derived \<noteq> expected"
  shows "(\<exists>e. fst (initializeArweave L w) = Inl e)
       \<and> (\<exists>before. trace (snd (initializeArweave L w))
             = before @ [Console ERROR (cross_mark @ '' Wallet address mismatch detected!''),
                         Console ERROR (''Expected: '' @ expected),
                         Console ERROR (''Loaded:   '' @ derived),
                         Console ERROR (''Source:   '' @ path),
                         ConsoleWith ERROR (cross_mark @ '' Failed to load production wallet:'')
                           (Error (mismatch_message expected derived))])
       \<and> str_includes (mismatch_message expected derived) expected
       \<and> str_includes (mismatch_message expected derived) derived"
proof -
  from initializeArweave_production [OF assms(1), of L] obtain client w2 where
    1: "files w2 = files w" "env w2 = env w"
      "fst (initializeArweave L w) =
             (case fst (productionWallet L w2) of
                Inl e \<Rightarrow> Inl e
              | Inr jwk \<Rightarrow>
                  Inr \<lparr>warp = \<lparr>network = Mainnet, kvStorage = client,
                                 plugins = [''DeployPlugin'']\<rparr>,
                        wallet = jwk, redis = client\<rparr>)"
      "\<forall>e. fst (productionWallet L w2) = Inl e \<longrightarrow>
                snd (initializeArweave L w) = snd (productionWallet L w2)"
    by blast
  have f: "files w2 path = Some text" using 1(1) assms(6) by simp
  obtain r w3 where t: "productionWalletTry L path expected w2 = (r, w3)"
    by (cases "productionWalletTry L path expected w2")
  from productionWalletTry_mismatch [OF f assms(7,8,9)] t
  have r: "r = Inl (Error (mismatch_message expected derived))"
    and tr: "trace w3 = trace w2 @ [ReadFile path,
                        Console ERROR (cross_mark @ '' Wallet address mismatch detected!''),
                        Console ERROR (''Expected: '' @ expected),
                        Console ERROR (''Loaded:   '' @ derived),
                        Console ERROR (''Source:   '' @ path)]"
    by simp_all
  have pw: "productionWallet L w2
      = (Inl load_failure,
         consoleWith ERROR (cross_mark @ '' Failed to load production wallet:'')
           (Error (mismatch_message expected derived)) w3)"
    using assms(2-5) 1(2) t r by (simp add: productionWallet_def truthy_def)
  then have "fst (initializeArweave L w) = Inl load_failure"
    using 1(3) by simp
  moreover have "trace (snd (initializeArweave L w))
      = (trace w2 @ [ReadFile path])
        @ [Console ERROR (cross_mark @ '' Wallet address mismatch detected!''),
           Console ERROR (''Expected: '' @ expected),
           Console ERROR (''Loaded:   '' @ derived),
           Console ERROR (''Source:   '' @ path),
           ConsoleWith ERROR (cross_mark @ '' Failed to load production wallet:'')
             (Error (mismatch_message expected derived))]"
    using 1(4) pw tr by simp
  ultimately show ?thesis
    using mismatch_message_reports [of expected derived] by blast
qed

theorem production_mismatch_fails_witness:
  "isProduction (env world_mismatch)
   \<and> SERVICE_WALLET_ADDRESS (env world_mismatch) = Some ''address-of-jwk-A''
   \<and> ARWEAVE_WALLET_PATH (env world_mismatch) = Some ''/run/secrets/wallet.json''
   \<and> files world_mismatch ''/run/secrets/wallet.json'' = Some ''jwk-B''
   \<and> JSON_parse lib0 ''jwk-B'' = Inr ''jwk-B''
   \<and> jwkToAddress lib0 ''jwk-B'' = Inr ''address-of-jwk-B''
   \<and> ''address-of-jwk-B'' \<noteq> ''address-of-jwk-A''
   \<and> isl (fst (initializeArweave lib0 world_mismatch))
   \<and> str_includes (mismatch_message ''address-of-jwk-A'' ''address-of-jwk-B'') ''address-of-jwk-A''"
proof -
  have h: "isProduction (env world_mismatch)"
    "SERVICE_WALLET_ADDRESS (env world_mismatch) = Some ''address-of-jwk-A''"
    "''address-of-jwk-A'' \<noteq> []"
    "ARWEAVE_WALLET_PATH (env world_mismatch) = Some ''/run/secrets/wallet.json''"
    "''/run/secrets/wallet.json'' \<noteq> []"
    "files world_mismatch ''/run/secrets/wallet.json'' = Some ''jwk-B''"
    "JSON_parse lib0 ''jwk-B'' = Inr ''jwk-B''"
    "jwkToAddress lib0 ''jwk-B'' = Inr ''address-of-jwk-B''"
    "''address-of-jwk-B'' \<noteq> ''address-of-jwk-A''"
    by (simp_all add: isProduction_def trim_def whiteSpace_def stripStart.simps world_defs lib0_def)
  from production_mismatch_fails [OF h] h show ?thesis by auto
qed

end
